theory Spec2Isabelle
  imports Complex_Main "HOL-Library.AList" "HOL-Library.Multiset"
begin

section \<open>Strings, accounts, journal entries\<close>

text \<open>
  A JavaScript string is a sequence of UTF-16 code units; it is modelled as a list of
  their numeric values. \<open>str\<close> turns an ASCII literal into such a list, the Japanese
  account names of the sources are written out code unit by code unit.
\<close>

type_synonym jsstring = "nat list"

abbreviation str :: "string \<Rightarrow> jsstring" where
  "str s \<equiv> map of_char s"

text \<open>\<open>a < b\<close> on strings: lexicographic on code units, a proper prefix is smaller.\<close>

fun str_lt :: "jsstring \<Rightarrow> jsstring \<Rightarrow> bool" where
  "str_lt [] [] = False"
| "str_lt [] (y # ys) = True"
| "str_lt (x # xs) [] = False"
| "str_lt (x # xs) (y # ys) = (x < y \<or> (x = y \<and> str_lt xs ys))"

definition str_le :: "jsstring \<Rightarrow> jsstring \<Rightarrow> bool" where
  "str_le a b = (a = b \<or> str_lt a b)"

text \<open>\<open>s.startsWith(n)\<close> and \<open>s.includes(n)\<close> (\<open>includes\<close> is a keyword of Isabelle).\<close>

fun startsWith :: "jsstring \<Rightarrow> jsstring \<Rightarrow> bool" where
  "startsWith s [] = True"
| "startsWith [] (y # ys) = False"
| "startsWith (x # xs) (y # ys) = (x = y \<and> startsWith xs ys)"

fun str_includes :: "jsstring \<Rightarrow> jsstring \<Rightarrow> bool" where
  "str_includes [] n = (n = [])"
| "str_includes (x # xs) n = (startsWith (x # xs) n \<or> str_includes xs n)"

datatype AccountType = Asset | Liability | Equity | Revenue | Expense

text \<open>
  The record fields keep the names of the TypeScript interfaces, with a prefix where
  two interfaces share a field name (\<open>id\<close>, \<open>name\<close>, \<open>amount\<close>, \<open>accountId\<close>).
\<close>

record Account =
  acc_id :: jsstring
  code :: jsstring
  acc_name :: jsstring
  acc_type :: AccountType

record JournalEntry =
  entry_id :: jsstring
  date :: jsstring
  description :: jsstring
  debitAccountId :: jsstring
  creditAccountId :: jsstring
  amount :: int
  createdAt :: jsstring
  updatedAt :: jsstring

record OpeningBalance =
  ob_accountId :: jsstring
  ob_amount :: int

text \<open>
  Amounts are yen: the \<open>number\<close> fields of the ledger hold integers, on which the
  arithmetic of the sources (\<open>+\<close>, \<open>-\<close>, comparison) is exact, and are modelled as \<open>int\<close>.
\<close>

text \<open>\<open>accounts.find((a) => a.id === id)?.type\<close> and \<open>...?.name || ''\<close>.\<close>

definition getAccountType :: "Account list \<Rightarrow> jsstring \<Rightarrow> AccountType option" where
  "getAccountType accounts i = map_option acc_type (find (\<lambda>a. acc_id a = i) accounts)"

definition getAccountName :: "Account list \<Rightarrow> jsstring \<Rightarrow> jsstring" where
  "getAccountName accounts i =
     (case find (\<lambda>a. acc_id a = i) accounts of None \<Rightarrow> [] | Some a \<Rightarrow> acc_name a)"

text \<open>
  A \<open>Map<string, V>\<close> is an association list in insertion order: \<open>m.set(k, v)\<close> is
  \<open>AList.update k v m\<close> (an existing key keeps its place, a new key goes to the end),
  \<open>m.get(k)\<close> is \<open>map_of m k\<close>, and \<open>m.get(k) || 0\<close> is \<open>getOr0 m k\<close>.
\<close>

definition getOr0 :: "(jsstring \<times> int) list \<Rightarrow> jsstring \<Rightarrow> int" where
  "getOr0 m k = (case map_of m k of None \<Rightarrow> 0 | Some v \<Rightarrow> v)"

section \<open>Depreciation journals (utils/depreciationJournal)\<close>

definition name_DepreciationExpense :: jsstring where
  "name_DepreciationExpense = [28187, 20385, 20767, 21364, 36027]"

definition name_AccumulatedDepreciation :: jsstring where
  "name_AccumulatedDepreciation = [28187, 20385, 20767, 21364, 32047, 35336, 38989]"

record FixedAsset =
  fa_id :: jsstring
  fa_name :: jsstring
  fa_accountId :: jsstring
  acquisitionDate :: jsstring
  acquisitionCost :: int
  usefulLife :: int
  residualValue :: int
  isDisposed :: bool
  disposalDate :: "jsstring option"

record DepreciationSchedule =
  fiscalYear :: int
  yearStartDate :: jsstring
  yearEndDate :: jsstring
  beginningBookValue :: int
  depreciationAmount :: int
  accumulatedDepreciation :: int
  endingBookValue :: int
  months :: int

text \<open>The two messages pushed to \<open>errors\<close>, one per missing account.\<close>

datatype ConfigurationError = MissingDepreciationExpense | MissingAccumulatedDepreciation

record DepreciationJournalResult =
  entries :: "JournalEntry list"
  totalAmount :: int
  assetCount :: nat
  errors :: "ConfigurationError list"

definition findAccountByName :: "Account list \<Rightarrow> jsstring \<Rightarrow> Account option" where
  "findAccountByName accounts n = find (\<lambda>a. acc_name a = n) accounts"

definition getAccumulatedDepreciationAccount :: "Account list \<Rightarrow> Account option" where
  "getAccumulatedDepreciationAccount accounts =
     findAccountByName accounts name_AccumulatedDepreciation"

definition getDepreciationExpenseAccount :: "Account list \<Rightarrow> Account option" where
  "getDepreciationExpenseAccount accounts =
     findAccountByName accounts name_DepreciationExpense"

text \<open>
  What the generator reads from outside: \<open>calculateDepreciationSchedule\<close> (a function of
  the asset, the fiscal year start and the horizon; its date and rounding arithmetic is
  not part of the journal generation and stays a parameter), \<open>uuidv4()\<close> and
  \<open>new Date().toISOString()\<close>, both indexed by the number of entries generated so far.
\<close>

record Env =
  calculateDepreciationSchedule :: "FixedAsset \<Rightarrow> jsstring \<Rightarrow> nat \<Rightarrow> DepreciationSchedule list"
  uuidv4 :: "nat \<Rightarrow> jsstring"
  nowISO :: "nat \<Rightarrow> jsstring"

text \<open>The body of \<open>activeAssets.forEach\<close>, on the state (entries, totalAmount, assetCount).\<close>

definition depreciationStep ::
  "Env \<Rightarrow> Account \<Rightarrow> Account \<Rightarrow> jsstring \<Rightarrow> int \<Rightarrow> FixedAsset
    \<Rightarrow> JournalEntry list \<times> int \<times> nat \<Rightarrow> JournalEntry list \<times> int \<times> nat" where
  "depreciationStep env de ad fiscalYearStart fy asset st =
     (case st of (es, tot, cnt) \<Rightarrow>
       (case find (\<lambda>s. fiscalYear s = fy)
                  (calculateDepreciationSchedule env asset fiscalYearStart 50) of
          None \<Rightarrow> st
        | Some currentSchedule \<Rightarrow>
            if depreciationAmount currentSchedule = 0 then st
            else
              (es @ [\<lparr> entry_id = uuidv4 env cnt,
                       date = yearEndDate currentSchedule,
                       description = fa_name asset @ [32, 28187, 20385, 20767, 21364, 36027],
                       debitAccountId = acc_id de,
                       creditAccountId = acc_id ad,
                       amount = depreciationAmount currentSchedule,
                       createdAt = nowISO env cnt,
                       updatedAt = nowISO env cnt \<rparr>],
               tot + depreciationAmount currentSchedule,
               Suc cnt)))"

definition generateDepreciationJournals ::
  "Env \<Rightarrow> FixedAsset list \<Rightarrow> Account list \<Rightarrow> jsstring \<Rightarrow> int \<Rightarrow> DepreciationJournalResult" where
  "generateDepreciationJournals env assets accounts fiscalYearStart fy =
     (case getDepreciationExpenseAccount accounts of
        None \<Rightarrow> \<lparr> entries = [], totalAmount = 0, assetCount = 0,
                  errors = [MissingDepreciationExpense] \<rparr>
      | Some de \<Rightarrow>
         (case getAccumulatedDepreciationAccount accounts of
            None \<Rightarrow> \<lparr> entries = [], totalAmount = 0, assetCount = 0,
                      errors = [MissingAccumulatedDepreciation] \<rparr>
          | Some ad \<Rightarrow>
             (case fold (depreciationStep env de ad fiscalYearStart fy)
                        (filter (\<lambda>asset. \<not> isDisposed asset) assets) ([], 0, 0) of
                (es, tot, cnt) \<Rightarrow>
                  \<lparr> entries = es, totalAmount = tot, assetCount = cnt, errors = [] \<rparr>)))"

definition hasDepreciationJournals ::
  "JournalEntry list \<Rightarrow> Account list \<Rightarrow> jsstring \<Rightarrow> jsstring \<Rightarrow> bool" where
  "hasDepreciationJournals journalEntries accounts fiscalYearStart fiscalYearEnd =
     (case getDepreciationExpenseAccount accounts of
        None \<Rightarrow> False
      | Some de \<Rightarrow>
          list_ex (\<lambda>entry. debitAccountId entry = acc_id de
                          \<and> str_le fiscalYearStart (date entry)
                          \<and> str_le (date entry) fiscalYearEnd
                          \<and> str_includes (description entry) name_DepreciationExpense)
                  journalEntries)"

text \<open>
  The current-year schedule of an asset that leads to an entry: the first schedule of
  the target fiscal year, when its amount is not zero.
\<close>

definition currentYearSchedule ::
  "Env \<Rightarrow> jsstring \<Rightarrow> int \<Rightarrow> FixedAsset \<Rightarrow> DepreciationSchedule option" where
  "currentYearSchedule env fiscalYearStart fy asset =
     (case find (\<lambda>s. fiscalYear s = fy)
                (calculateDepreciationSchedule env asset fiscalYearStart 50) of
        None \<Rightarrow> None
      | Some s \<Rightarrow> if depreciationAmount s = 0 then None else Some s)"

text \<open>What the claim reads of an entry: debit, credit, amount, date.\<close>

definition posting :: "JournalEntry \<Rightarrow> jsstring \<times> jsstring \<times> int \<times> jsstring" where
  "posting e = (debitAccountId e, creditAccountId e, amount e, date e)"


text \<open>Concrete inputs.\<close>

text \<open>
  A chart with both accounts, one active asset with a schedule of 200 for 2025, one
  active asset whose schedule for 2025 is zero and one disposed asset; and the same
  assets on an empty chart and on a chart with the expense account only.
\<close>

definition wEnv :: Env where
  "wEnv = \<lparr> calculateDepreciationSchedule = (\<lambda>asset fys n.
              [\<lparr> fiscalYear = 2025, yearStartDate = str ''2025-04-01'',
                 yearEndDate = str ''2026-03-31'',
                 beginningBookValue = acquisitionCost asset,
                 depreciationAmount = acquisitionCost asset div 5,
                 accumulatedDepreciation = acquisitionCost asset div 5,
                 endingBookValue = acquisitionCost asset - acquisitionCost asset div 5,
                 months = 12 \<rparr>]),
            uuidv4 = (\<lambda>n. str ''id''), nowISO = (\<lambda>n. str ''2026-03-31T00:00:00.000Z'') \<rparr>"

definition wAsset :: "string \<Rightarrow> int \<Rightarrow> bool \<Rightarrow> FixedAsset" where
  "wAsset n cost disposed =
     \<lparr> fa_id = str n, fa_name = str n, fa_accountId = str ''acc-150'',
       acquisitionDate = str ''2025-04-01'', acquisitionCost = cost, usefulLife = 5,
       residualValue = 1, isDisposed = disposed, disposalDate = None \<rparr>"

definition wAssets :: "FixedAsset list" where
  "wAssets = [wAsset ''pc'' 1000 False, wAsset ''desk'' 0 False, wAsset ''car'' 5000 True]"

definition wDepExp :: Account where
  "wDepExp = \<lparr> acc_id = str ''acc-520'', code = str ''520'',
              acc_name = name_DepreciationExpense, acc_type = Expense \<rparr>"

definition wAccDep :: Account where
  "wAccDep = \<lparr> acc_id = str ''acc-160'', code = str ''160'',
              acc_name = name_AccumulatedDepreciation, acc_type = Asset \<rparr>"

text \<open>
  An entry that debits the former expense account inside the period, described as a
  depreciation posting, on a chart that has lost the account: the check answers false.
\<close>

definition wDepEntry :: JournalEntry where
  "wDepEntry = \<lparr> entry_id = str ''j1'', date = str ''2026-03-31'',
       description = str ''pc'' @ [32, 28187, 20385, 20767, 21364, 36027],
       debitAccountId = str ''acc-520'', creditAccountId = str ''acc-160'', amount = 200,
       createdAt = str ''t'', updatedAt = str ''t'' \<rparr>"

section \<open>Trial balance (components/TrialBalance)\<close>

text \<open>The date filter shared by the report components: an empty bound is no bound.\<close>

definition filteredEntries :: "JournalEntry list \<Rightarrow> jsstring \<Rightarrow> jsstring \<Rightarrow> JournalEntry list" where
  "filteredEntries es startDate endDate =
     filter (\<lambda>entry. \<not> (startDate \<noteq> [] \<and> str_lt (date entry) startDate)
                    \<and> \<not> (endDate \<noteq> [] \<and> str_lt endDate (date entry))) es"

text \<open>A \<open>Set<string>\<close> in insertion order; \<open>s.add(x)\<close>.\<close>

definition setAdd :: "jsstring \<Rightarrow> jsstring list \<Rightarrow> jsstring list" where
  "setAdd x s = (if x \<in> set s then s else s @ [x])"

definition missingStep :: "Account list \<Rightarrow> JournalEntry \<Rightarrow> jsstring list \<Rightarrow> jsstring list" where
  "missingStep accounts entry missing =
     (let m1 = (if debitAccountId entry \<notin> set (map acc_id accounts)
                then setAdd (debitAccountId entry) missing else missing)
      in if creditAccountId entry \<notin> set (map acc_id accounts)
         then setAdd (creditAccountId entry) m1 else m1)"

definition missingAccountIds :: "JournalEntry list \<Rightarrow> Account list \<Rightarrow> jsstring list" where
  "missingAccountIds fes accounts = fold (missingStep accounts) fes []"

record Totals =
  debit :: int
  credit :: int

text \<open>\<open>accountTotals.get(k) || { debit: 0, credit: 0 }\<close>.\<close>

definition getTotals :: "(jsstring \<times> Totals) list \<Rightarrow> jsstring \<Rightarrow> Totals" where
  "getTotals m k = (case map_of m k of None \<Rightarrow> \<lparr> debit = 0, credit = 0 \<rparr> | Some t \<Rightarrow> t)"

definition applyOpening :: "OpeningBalance \<Rightarrow> (jsstring \<times> Totals) list \<Rightarrow> (jsstring \<times> Totals) list" where
  "applyOpening balance m =
     (let existing = getTotals m (ob_accountId balance);
          existing' = (if ob_amount balance > 0
                       then existing\<lparr> debit := debit existing + ob_amount balance \<rparr>
                       else existing\<lparr> credit := credit existing + \<bar>ob_amount balance\<bar> \<rparr>)
      in AList.update (ob_accountId balance) existing' m)"

definition applyEntry :: "JournalEntry \<Rightarrow> (jsstring \<times> Totals) list \<Rightarrow> (jsstring \<times> Totals) list" where
  "applyEntry entry m =
     (let debitData = getTotals m (debitAccountId entry);
          m1 = AList.update (debitAccountId entry)
                 (debitData\<lparr> debit := debit debitData + amount entry \<rparr>) m;
          creditData = getTotals m1 (creditAccountId entry)
      in AList.update (creditAccountId entry)
           (creditData\<lparr> credit := credit creditData + amount entry \<rparr>) m1)"

definition accountTotals ::
  "JournalEntry list \<Rightarrow> OpeningBalance list \<Rightarrow> bool \<Rightarrow> (jsstring \<times> Totals) list" where
  "accountTotals fes balances includeOpeningBalance =
     fold applyEntry fes (if includeOpeningBalance then fold applyOpening balances [] else [])"

record BalanceRow =
  row_accountId :: jsstring
  row_code :: jsstring
  row_name :: jsstring
  row_type :: AccountType
  debitTotal :: int
  creditTotal :: int
  debitBalance :: int
  creditBalance :: int

definition accountRow :: "(jsstring \<times> Totals) list \<Rightarrow> Account \<Rightarrow> BalanceRow" where
  "accountRow m account =
     (let totals = getTotals m (acc_id account)
      in \<lparr> row_accountId = acc_id account, row_code = code account,
           row_name = acc_name account, row_type = acc_type account,
           debitTotal = debit totals, creditTotal = credit totals,
           debitBalance = 0, creditBalance = 0 \<rparr>)"

text \<open>
  The synthetic row of an id that no account has: code \<open>???\<close>, a name built from the
  first eight code units of the id, type asset.
\<close>

definition unknownRow :: "jsstring \<Rightarrow> Totals \<Rightarrow> BalanceRow" where
  "unknownRow missingId totals =
     \<lparr> row_accountId = missingId, row_code = str ''???'',
       row_name = [19981, 26126, 12394, 31185, 30446, 32, 40] @ take 8 missingId @ str ''...)'',
       row_type = Asset,
       debitTotal = debit totals, creditTotal = credit totals,
       debitBalance = 0, creditBalance = 0 \<rparr>"

text \<open>
  \<open>rows.sort((a, b) => a.code.localeCompare(b.code))\<close>: the collation is a parameter;
  the sort is stable, each row goes before the first row that does not compare below it.
\<close>

fun insertRow :: "(jsstring \<Rightarrow> jsstring \<Rightarrow> int) \<Rightarrow> BalanceRow \<Rightarrow> BalanceRow list \<Rightarrow> BalanceRow list" where
  "insertRow localeCompare r [] = [r]"
| "insertRow localeCompare r (x # xs) =
     (if localeCompare (row_code r) (row_code x) \<le> 0 then r # x # xs
      else x # insertRow localeCompare r xs)"

definition sortRows :: "(jsstring \<Rightarrow> jsstring \<Rightarrow> int) \<Rightarrow> BalanceRow list \<Rightarrow> BalanceRow list" where
  "sortRows localeCompare rows = foldr (insertRow localeCompare) rows []"

definition setBalances :: "BalanceRow \<Rightarrow> BalanceRow" where
  "setBalances row =
     (let isDebitNormal = (row_type row = Asset \<or> row_type row = Expense);
          netBalance = debitTotal row - creditTotal row
      in if isDebitNormal
         then row\<lparr> debitBalance := (if netBalance \<ge> 0 then netBalance else 0),
                   creditBalance := (if netBalance < 0 then - netBalance else 0) \<rparr>
         else row\<lparr> debitBalance := (if netBalance > 0 then netBalance else 0),
                   creditBalance := (if netBalance \<le> 0 then - netBalance else 0) \<rparr>)"

definition balanceData ::
  "(jsstring \<Rightarrow> jsstring \<Rightarrow> int) \<Rightarrow> JournalEntry list \<Rightarrow> Account list \<Rightarrow> OpeningBalance list
    \<Rightarrow> bool \<Rightarrow> BalanceRow list" where
  "balanceData localeCompare fes accounts balances includeOpeningBalance =
     (let m = accountTotals fes balances includeOpeningBalance;
          rows = map (accountRow m) (filter (\<lambda>account. map_of m (acc_id account) \<noteq> None) accounts);
          rows' = rows @ List.map_filter (\<lambda>missingId. map_option (unknownRow missingId) (map_of m missingId))
                          (missingAccountIds fes accounts)
      in map setBalances (sortRows localeCompare rows'))"

record TrialTotals =
  tt_debitTotal :: int
  tt_creditTotal :: int
  tt_debitBalance :: int
  tt_creditBalance :: int

definition totals :: "BalanceRow list \<Rightarrow> TrialTotals" where
  "totals rows =
     fold (\<lambda>row acc. \<lparr> tt_debitTotal = tt_debitTotal acc + debitTotal row,
                       tt_creditTotal = tt_creditTotal acc + creditTotal row,
                       tt_debitBalance = tt_debitBalance acc + debitBalance row,
                       tt_creditBalance = tt_creditBalance acc + creditBalance row \<rparr>)
          rows \<lparr> tt_debitTotal = 0, tt_creditTotal = 0, tt_debitBalance = 0, tt_creditBalance = 0 \<rparr>"

definition isBalanced :: "BalanceRow list \<Rightarrow> bool" where
  "isBalanced rows = (tt_debitTotal (totals rows) = tt_creditTotal (totals rows))"

text \<open>The component, from the stored entries to the rows; the banner is shown when an id is missing.\<close>

definition TrialBalance ::
  "(jsstring \<Rightarrow> jsstring \<Rightarrow> int) \<Rightarrow> JournalEntry list \<Rightarrow> Account list \<Rightarrow> OpeningBalance list
    \<Rightarrow> jsstring \<Rightarrow> jsstring \<Rightarrow> bool \<Rightarrow> BalanceRow list" where
  "TrialBalance localeCompare es accounts balances startDate endDate includeOpeningBalance =
     balanceData localeCompare (filteredEntries es startDate endDate) accounts balances
       includeOpeningBalance"

definition missingWarning :: "JournalEntry list \<Rightarrow> Account list \<Rightarrow> jsstring \<Rightarrow> jsstring \<Rightarrow> bool" where
  "missingWarning es accounts startDate endDate =
     (length (missingAccountIds (filteredEntries es startDate endDate) accounts) > 0)"

text \<open>
  The parts of a total that come from the entries and from the opening balances,
  written as sums over the inputs.
\<close>

definition entryDebit :: "JournalEntry list \<Rightarrow> jsstring \<Rightarrow> int" where
  "entryDebit fes k = (\<Sum>e\<leftarrow>filter (\<lambda>e. debitAccountId e = k) fes. amount e)"

definition entryCredit :: "JournalEntry list \<Rightarrow> jsstring \<Rightarrow> int" where
  "entryCredit fes k = (\<Sum>e\<leftarrow>filter (\<lambda>e. creditAccountId e = k) fes. amount e)"

definition openingDebit :: "OpeningBalance list \<Rightarrow> jsstring \<Rightarrow> int" where
  "openingDebit balances k =
     (\<Sum>b\<leftarrow>filter (\<lambda>b. ob_accountId b = k \<and> ob_amount b > 0) balances. ob_amount b)"

definition openingCredit :: "OpeningBalance list \<Rightarrow> jsstring \<Rightarrow> int" where
  "openingCredit balances k =
     (\<Sum>b\<leftarrow>filter (\<lambda>b. ob_accountId b = k \<and> \<not> ob_amount b > 0) balances. \<bar>ob_amount b\<bar>)"

text \<open>The ids that get a row: those of the accounts and those of the filtered entries.\<close>

definition shownIds :: "JournalEntry list \<Rightarrow> Account list \<Rightarrow> jsstring set" where
  "shownIds fes accounts =
     set (map acc_id accounts) \<union> set (map debitAccountId fes) \<union> set (map creditAccountId fes)"

text \<open>Concrete inputs: a comparison of codes by code units, and the scenarios of the specification.\<close>

definition codeCompare :: "jsstring \<Rightarrow> jsstring \<Rightarrow> int" where
  "codeCompare a b = (if str_lt a b then - 1 else if str_lt b a then 1 else 0)"

definition mkAccount :: "string \<Rightarrow> string \<Rightarrow> jsstring \<Rightarrow> AccountType \<Rightarrow> Account" where
  "mkAccount i c n t = \<lparr> acc_id = str i, code = str c, acc_name = n, acc_type = t \<rparr>"

definition mkEntry :: "string \<Rightarrow> string \<Rightarrow> string \<Rightarrow> int \<Rightarrow> JournalEntry" where
  "mkEntry d dr cr amt =
     \<lparr> entry_id = str ''e'', date = str d, description = [], debitAccountId = str dr,
       creditAccountId = str cr, amount = amt, createdAt = [], updatedAt = [] \<rparr>"

definition name_Cash :: jsstring where
  "name_Cash = [29694, 37329]"

definition name_Capital :: jsstring where
  "name_Capital = [36039, 26412, 37329]"

text \<open>Scenario A: Cash (101, asset), Sales (401, revenue), one sale of 1000 for cash.\<close>

definition accountsA :: "Account list" where
  "accountsA = [mkAccount ''cash'' ''101'' name_Cash Asset,
                mkAccount ''sales'' ''401'' (str ''Sales'') Revenue]"

definition entriesA :: "JournalEntry list" where
  "entriesA = [mkEntry ''2025-05-01'' ''cash'' ''sales'' 1000]"

text \<open>
  Scenario B: opening Cash +500 and Capital -500, one expense of 200 paid in cash.
\<close>

definition accountsB :: "Account list" where
  "accountsB = [mkAccount ''cash'' ''101'' name_Cash Asset,
                mkAccount ''capital'' ''301'' name_Capital Equity,
                mkAccount ''rent'' ''510'' (str ''Rent'') Expense]"

definition openingB :: "OpeningBalance list" where
  "openingB = [\<lparr> ob_accountId = str ''cash'', ob_amount = 500 \<rparr>,
               \<lparr> ob_accountId = str ''capital'', ob_amount = - 500 \<rparr>]"

definition entriesB :: "JournalEntry list" where
  "entriesB = [mkEntry ''2025-05-01'' ''rent'' ''cash'' 200]"

text \<open>
  Scenario D: the credit side of an entry names an id that no account has; and the same
  ledger with an opening balance of 50 recorded under that id.
\<close>

definition accountsD :: "Account list" where
  "accountsD = [mkAccount ''cash'' ''101'' name_Cash Asset]"

definition entriesD :: "JournalEntry list" where
  "entriesD = [mkEntry ''2025-05-01'' ''cash'' ''ghost'' 100]"

definition openingD :: "OpeningBalance list" where
  "openingD = [\<lparr> ob_accountId = str ''ghost'', ob_amount = - 50 \<rparr>]"

text \<open>What a test reads of a row.\<close>

definition rowView :: "BalanceRow \<Rightarrow> jsstring \<times> int \<times> int \<times> int \<times> int" where
  "rowView r = (row_accountId r, debitTotal r, creditTotal r, debitBalance r, creditBalance r)"

section \<open>Income statement and balance sheet (components/FinancialStatements)\<close>

record AccountBalance =
  ab_id :: jsstring
  ab_code :: jsstring
  ab_name :: jsstring
  ab_type :: AccountType
  balance :: int

text \<open>Opening balances go to the accounts of the chart that are asset, liability or equity.\<close>

definition fsApplyOpening ::
  "Account list \<Rightarrow> OpeningBalance \<Rightarrow> (jsstring \<times> int) list \<Rightarrow> (jsstring \<times> int) list" where
  "fsApplyOpening accounts b m =
     (case find (\<lambda>a. acc_id a = ob_accountId b) accounts of
        None \<Rightarrow> m
      | Some account \<Rightarrow>
          if acc_type account \<in> set [Asset, Liability, Equity]
          then AList.update (ob_accountId b) (getOr0 m (ob_accountId b) + ob_amount b) m
          else m)"

definition fsApplyEntry :: "JournalEntry \<Rightarrow> (jsstring \<times> int) list \<Rightarrow> (jsstring \<times> int) list" where
  "fsApplyEntry entry m =
     (let debitBalance = getOr0 m (debitAccountId entry);
          m1 = AList.update (debitAccountId entry) (debitBalance + amount entry) m;
          creditBalance = getOr0 m1 (creditAccountId entry)
      in AList.update (creditAccountId entry) (creditBalance - amount entry) m1)"

definition fsBalances ::
  "JournalEntry list \<Rightarrow> Account list \<Rightarrow> OpeningBalance list \<Rightarrow> bool \<Rightarrow> (jsstring \<times> int) list" where
  "fsBalances fes accounts obs includeOpeningBalance =
     fold fsApplyEntry fes
       (if includeOpeningBalance then fold (fsApplyOpening accounts) obs [] else [])"

definition fsAccountStep ::
  "(jsstring \<times> int) list \<Rightarrow> Account \<Rightarrow> AccountBalance list \<Rightarrow> AccountBalance list" where
  "fsAccountStep m account result =
     (let rawBalance = getOr0 m (acc_id account)
      in if rawBalance = 0 then result
         else (let isDebitNormal = (acc_type account = Asset \<or> acc_type account = Expense);
                   bal = (if isDebitNormal then rawBalance else - rawBalance)
               in result @ [\<lparr> ab_id = acc_id account, ab_code = code account,
                               ab_name = acc_name account, ab_type = acc_type account,
                               balance = bal \<rparr>]))"

fun insertBalance ::
  "(jsstring \<Rightarrow> jsstring \<Rightarrow> int) \<Rightarrow> AccountBalance \<Rightarrow> AccountBalance list \<Rightarrow> AccountBalance list" where
  "insertBalance localeCompare r [] = [r]"
| "insertBalance localeCompare r (x # xs) =
     (if localeCompare (ab_code r) (ab_code x) \<le> 0 then r # x # xs
      else x # insertBalance localeCompare r xs)"

definition sortBalances ::
  "(jsstring \<Rightarrow> jsstring \<Rightarrow> int) \<Rightarrow> AccountBalance list \<Rightarrow> AccountBalance list" where
  "sortBalances localeCompare rows = foldr (insertBalance localeCompare) rows []"

definition accountBalances ::
  "(jsstring \<Rightarrow> jsstring \<Rightarrow> int) \<Rightarrow> JournalEntry list \<Rightarrow> Account list \<Rightarrow> OpeningBalance list
    \<Rightarrow> bool \<Rightarrow> AccountBalance list" where
  "accountBalances localeCompare fes accounts obs includeOpeningBalance =
     sortBalances localeCompare
       (fold (fsAccountStep (fsBalances fes accounts obs includeOpeningBalance)) accounts [])"

text \<open>\<open>xs.reduce((sum, a) => sum + a.balance, 0)\<close>.\<close>

definition sumBalance :: "AccountBalance list \<Rightarrow> int" where
  "sumBalance xs = fold (\<lambda>a s. s + balance a) xs 0"

record PLData =
  pl_revenue :: "AccountBalance list"
  pl_expense :: "AccountBalance list"
  pl_totalRevenue :: int
  pl_totalExpense :: int
  pl_netIncome :: int

definition plData :: "AccountBalance list \<Rightarrow> PLData" where
  "plData bals =
     (let revs = filter (\<lambda>a. ab_type a = Revenue) bals;
          exps = filter (\<lambda>a. ab_type a = Expense) bals;
          tr = sumBalance revs;
          te = sumBalance exps
      in \<lparr> pl_revenue = revs, pl_expense = exps, pl_totalRevenue = tr,
           pl_totalExpense = te,
           pl_netIncome = tr - te \<rparr>)"

record BSData =
  bs_assets :: "AccountBalance list"
  bs_liabilities :: "AccountBalance list"
  bs_equity :: "AccountBalance list"
  bs_totalAssets :: int
  bs_totalLiabilities :: int
  bs_totalEquity :: int
  bs_netIncome :: int

definition bsData :: "AccountBalance list \<Rightarrow> BSData" where
  "bsData bals =
     (let assetRows = filter (\<lambda>a. ab_type a = Asset) bals;
          liabilityRows = filter (\<lambda>a. ab_type a = Liability) bals;
          equityRows = filter (\<lambda>a. ab_type a = Equity) bals;
          ta = sumBalance assetRows;
          tl = sumBalance liabilityRows;
          te = sumBalance equityRows;
          totalEquityWithIncome = te + pl_netIncome (plData bals)
      in \<lparr> bs_assets = assetRows, bs_liabilities = liabilityRows,
           bs_equity = equityRows,
           bs_totalAssets = ta, bs_totalLiabilities = tl,
           bs_totalEquity = totalEquityWithIncome,
           bs_netIncome = pl_netIncome (plData bals) \<rparr>)"

text \<open>The component: the date filter, then the balances, then the two statements.\<close>

definition FinancialStatements ::
  "(jsstring \<Rightarrow> jsstring \<Rightarrow> int) \<Rightarrow> JournalEntry list \<Rightarrow> Account list \<Rightarrow> OpeningBalance list
    \<Rightarrow> jsstring \<Rightarrow> jsstring \<Rightarrow> bool \<Rightarrow> PLData \<times> BSData" where
  "FinancialStatements localeCompare es accounts obs startDate endDate includeOpeningBalance =
     (let bals = accountBalances localeCompare (filteredEntries es startDate endDate) accounts
                   obs includeOpeningBalance
      in (plData bals, bsData bals))"

text \<open>
  The raw balance of an id in this report, as a sum over the inputs: the opening
  balances recorded under the id when the flag is set and the id belongs to an asset,
  liability or equity account of the chart, plus the debits, minus the credits.
\<close>

definition isBalanceSheetType :: "AccountType option \<Rightarrow> bool" where
  "isBalanceSheetType t = (t = Some Asset \<or> t = Some Liability \<or> t = Some Equity)"

definition fsOpening :: "Account list \<Rightarrow> OpeningBalance list \<Rightarrow> bool \<Rightarrow> jsstring \<Rightarrow> int" where
  "fsOpening accounts obs includeOpeningBalance k =
     (if includeOpeningBalance \<and> isBalanceSheetType (getAccountType accounts k)
      then (\<Sum>b\<leftarrow>filter (\<lambda>b. ob_accountId b = k) obs. ob_amount b) else 0)"

definition rawBalance ::
  "JournalEntry list \<Rightarrow> Account list \<Rightarrow> OpeningBalance list \<Rightarrow> bool \<Rightarrow> jsstring \<Rightarrow> int" where
  "rawBalance fes accounts obs includeOpeningBalance k =
     fsOpening accounts obs includeOpeningBalance k + entryDebit fes k - entryCredit fes k"

definition displayBalance :: "AccountType \<Rightarrow> int \<Rightarrow> int" where
  "displayBalance t raw = (if t = Asset \<or> t = Expense then raw else - raw)"

definition displayedAccount ::
  "JournalEntry list \<Rightarrow> Account list \<Rightarrow> OpeningBalance list \<Rightarrow> bool \<Rightarrow> Account \<Rightarrow> AccountBalance" where
  "displayedAccount fes accounts obs inc account =
     \<lparr> ab_id = acc_id account, ab_code = code account, ab_name = acc_name account,
       ab_type = acc_type account,
       balance = displayBalance (acc_type account)
                   (rawBalance fes accounts obs inc (acc_id account)) \<rparr>"

text \<open>Scenario B with an entry added whose credit side names an id outside the chart.\<close>

definition entriesGhost :: "JournalEntry list" where
  "entriesGhost = [mkEntry ''2025-05-01'' ''rent'' ''cash'' 200,
                   mkEntry ''2025-06-01'' ''cash'' ''ghost'' 100]"

definition abView :: "AccountBalance \<Rightarrow> jsstring \<times> int" where
  "abView a = (ab_id a, balance a)"

section \<open>Year-end closing (utils/yearEndClosing)\<close>

record ClosingBalance =
  cb_accountId :: jsstring
  cb_accountName :: jsstring
  cb_accountType :: AccountType
  cb_balance :: int

record ClosingEntry =
  ce_debitAccountId :: jsstring
  ce_creditAccountId :: jsstring
  ce_amount :: int
  ce_description :: jsstring

record YearEndClosingResult =
  closingBalances :: "ClosingBalance list"
  netProfit :: int
  closingEntry :: "ClosingEntry option"
  carryForwardBalances :: "OpeningBalance list"

definition isBalanceSheetAccount :: "AccountType \<Rightarrow> bool" where
  "isBalanceSheetAccount t = (t = Asset \<or> t = Liability \<or> t = Equity)"

text \<open>The three accepted names of the retained-earnings account.\<close>

definition name_RetainedEarningsCarried :: jsstring where
  "name_RetainedEarningsCarried = [32368, 36234, 21033, 30410, 21104, 20313, 37329]"

definition name_RetainedEarnings :: jsstring where
  "name_RetainedEarnings = [21033, 30410, 21104, 20313, 37329]"

definition name_ProfitCarried :: jsstring where
  "name_ProfitCarried = [32368, 36234, 21033, 30410]"

definition findRetainedEarningsAccount :: "Account list \<Rightarrow> Account option" where
  "findRetainedEarningsAccount accounts =
     find (\<lambda>a. acc_name a = name_RetainedEarningsCarried
              \<or> acc_name a = name_RetainedEarnings
              \<or> acc_name a = name_ProfitCarried) accounts"

definition periodEntries :: "JournalEntry list \<Rightarrow> jsstring \<Rightarrow> jsstring \<Rightarrow> JournalEntry list" where
  "periodEntries es fiscalYearStart fiscalYearEnd =
     filter (\<lambda>entry. str_le fiscalYearStart (date entry) \<and> str_le (date entry) fiscalYearEnd) es"

text \<open>\<open>balances.set(ob.accountId, ob.amount)\<close> for each opening balance: the last one wins.\<close>

definition setOpening :: "OpeningBalance list \<Rightarrow> (jsstring \<times> int) list" where
  "setOpening obs = fold (\<lambda>ob m. AList.update (ob_accountId ob) (ob_amount ob) m) obs []"

text \<open>
  The six balance updates of one entry, in the order of the source; shared by the
  closing, the cash flow and the indicators, which post entries in the same way.
\<close>

definition postBalances ::
  "Account list \<Rightarrow> JournalEntry \<Rightarrow> (jsstring \<times> int) list \<Rightarrow> (jsstring \<times> int) list" where
  "postBalances accounts entry m =
     (let debitType = getAccountType accounts (debitAccountId entry);
          creditType = getAccountType accounts (creditAccountId entry);
          m1 = (if debitType = Some Asset
                then AList.update (debitAccountId entry)
                       (getOr0 m (debitAccountId entry) + amount entry) m else m);
          m2 = (if debitType = Some Liability
                then AList.update (debitAccountId entry)
                       (getOr0 m1 (debitAccountId entry) - amount entry) m1 else m1);
          m3 = (if debitType = Some Equity
                then AList.update (debitAccountId entry)
                       (getOr0 m2 (debitAccountId entry) - amount entry) m2 else m2);
          m4 = (if creditType = Some Asset
                then AList.update (creditAccountId entry)
                       (getOr0 m3 (creditAccountId entry) - amount entry) m3 else m3);
          m5 = (if creditType = Some Liability
                then AList.update (creditAccountId entry)
                       (getOr0 m4 (creditAccountId entry) + amount entry) m4 else m4)
      in if creditType = Some Equity
         then AList.update (creditAccountId entry)
                (getOr0 m5 (creditAccountId entry) + amount entry) m5 else m5)"

text \<open>The body of \<open>periodEntries.forEach\<close>, on (balances, totalRevenue, totalExpense).\<close>

definition closingStep ::
  "Account list \<Rightarrow> JournalEntry \<Rightarrow> (jsstring \<times> int) list \<times> int \<times> int
     \<Rightarrow> (jsstring \<times> int) list \<times> int \<times> int" where
  "closingStep accounts entry st =
     (case st of (m, totalRevenue, totalExpense) \<Rightarrow>
       (let debitType = getAccountType accounts (debitAccountId entry);
            creditType = getAccountType accounts (creditAccountId entry);
            r1 = (if creditType = Some Revenue then totalRevenue + amount entry else totalRevenue);
            r2 = (if debitType = Some Revenue then r1 - amount entry else r1);
            e1 = (if debitType = Some Expense then totalExpense + amount entry else totalExpense);
            e2 = (if creditType = Some Expense then e1 - amount entry else e1)
        in (postBalances accounts entry m, r2, e2)))"

definition closingFold ::
  "JournalEntry list \<Rightarrow> Account list \<Rightarrow> OpeningBalance list \<Rightarrow> jsstring \<Rightarrow> jsstring
     \<Rightarrow> (jsstring \<times> int) list \<times> int \<times> int" where
  "closingFold es accounts obs fiscalYearStart fiscalYearEnd =
     fold (closingStep accounts) (periodEntries es fiscalYearStart fiscalYearEnd)
       (setOpening obs, 0, 0)"

text \<open>The balances after the entries of the period, before the profit is rolled in.\<close>

definition periodBalances ::
  "JournalEntry list \<Rightarrow> Account list \<Rightarrow> OpeningBalance list \<Rightarrow> jsstring \<Rightarrow> jsstring
     \<Rightarrow> (jsstring \<times> int) list" where
  "periodBalances es accounts obs fiscalYearStart fiscalYearEnd =
     fst (closingFold es accounts obs fiscalYearStart fiscalYearEnd)"

definition periodNetProfit ::
  "JournalEntry list \<Rightarrow> Account list \<Rightarrow> OpeningBalance list \<Rightarrow> jsstring \<Rightarrow> jsstring \<Rightarrow> int" where
  "periodNetProfit es accounts obs fiscalYearStart fiscalYearEnd =
     (case closingFold es accounts obs fiscalYearStart fiscalYearEnd of
        (m, totalRevenue, totalExpense) \<Rightarrow> totalRevenue - totalExpense)"

text \<open>The closing entry and the balances after the retained-earnings update.\<close>

definition closingTransfer ::
  "Account option \<Rightarrow> int \<Rightarrow> jsstring \<Rightarrow> (jsstring \<times> int) list
     \<Rightarrow> ClosingEntry option \<times> (jsstring \<times> int) list" where
  "closingTransfer retainedEarningsAccount np fiscalYearEnd m =
     (case retainedEarningsAccount of
        None \<Rightarrow> (None, m)
      | Some re \<Rightarrow>
          if np \<noteq> 0
          then ((if np > 0
                 then Some \<lparr> ce_debitAccountId = [], ce_creditAccountId = acc_id re,
                             ce_amount = np,
                             ce_description =
                               [24403, 26399, 32020, 21033, 30410, 12398, 25391, 26367, 65288]
                               @ fiscalYearEnd @ [65289] \<rparr>
                 else Some \<lparr> ce_debitAccountId = acc_id re, ce_creditAccountId = [],
                             ce_amount = \<bar>np\<bar>,
                             ce_description =
                               [24403, 26399, 32020, 25613, 22833, 12398, 25391, 26367, 65288]
                               @ fiscalYearEnd @ [65289] \<rparr>),
                AList.update (acc_id re) (getOr0 m (acc_id re) - np) m)
          else (None, m))"

definition closedBalances ::
  "JournalEntry list \<Rightarrow> Account list \<Rightarrow> OpeningBalance list \<Rightarrow> jsstring \<Rightarrow> jsstring
     \<Rightarrow> (jsstring \<times> int) list" where
  "closedBalances es accounts obs fiscalYearStart fiscalYearEnd =
     snd (closingTransfer (findRetainedEarningsAccount accounts)
            (periodNetProfit es accounts obs fiscalYearStart fiscalYearEnd) fiscalYearEnd
            (periodBalances es accounts obs fiscalYearStart fiscalYearEnd))"

definition closingBalanceStep ::
  "(jsstring \<times> int) list \<Rightarrow> Account \<Rightarrow> ClosingBalance list \<Rightarrow> ClosingBalance list" where
  "closingBalanceStep m account out =
     (if isBalanceSheetAccount (acc_type account)
      then (let bal = getOr0 m (acc_id account)
            in if bal \<noteq> 0
               then out @ [\<lparr> cb_accountId = acc_id account, cb_accountName = acc_name account,
                              cb_accountType = acc_type account, cb_balance = bal \<rparr>]
               else out)
      else out)"

definition carryForwardStep ::
  "(jsstring \<times> int) list \<Rightarrow> Account \<Rightarrow> OpeningBalance list \<Rightarrow> OpeningBalance list" where
  "carryForwardStep m account out =
     (if isBalanceSheetAccount (acc_type account)
      then (let bal = getOr0 m (acc_id account)
            in if bal \<noteq> 0
               then out @ [\<lparr> ob_accountId = acc_id account, ob_amount = bal \<rparr>]
               else out)
      else out)"

definition calculateYearEndClosing ::
  "JournalEntry list \<Rightarrow> Account list \<Rightarrow> OpeningBalance list \<Rightarrow> jsstring \<Rightarrow> jsstring
     \<Rightarrow> YearEndClosingResult" where
  "calculateYearEndClosing es accounts obs fiscalYearStart fiscalYearEnd =
     (let np = periodNetProfit es accounts obs fiscalYearStart fiscalYearEnd;
          transfer = closingTransfer (findRetainedEarningsAccount accounts) np fiscalYearEnd
                       (periodBalances es accounts obs fiscalYearStart fiscalYearEnd)
      in \<lparr> closingBalances = fold (closingBalanceStep (snd transfer)) accounts [],
           netProfit = np,
           closingEntry = fst transfer,
           carryForwardBalances = fold (carryForwardStep (snd transfer)) accounts [] \<rparr>)"

text \<open>
  Revenue and expense of a list of entries as sums: a credit to a revenue account adds
  to revenue and a debit to one subtracts; a debit to an expense account adds to
  expense and a credit to one subtracts.
\<close>

definition revenueOf :: "Account list \<Rightarrow> JournalEntry list \<Rightarrow> int" where
  "revenueOf accounts es =
     (\<Sum>e\<leftarrow>es. (if getAccountType accounts (creditAccountId e) = Some Revenue then amount e else 0)
            - (if getAccountType accounts (debitAccountId e) = Some Revenue then amount e else 0))"

definition expenseOf :: "Account list \<Rightarrow> JournalEntry list \<Rightarrow> int" where
  "expenseOf accounts es =
     (\<Sum>e\<leftarrow>es. (if getAccountType accounts (debitAccountId e) = Some Expense then amount e else 0)
            - (if getAccountType accounts (creditAccountId e) = Some Expense then amount e else 0))"

text \<open>Concrete inputs: a chart with a retained-earnings account, a sale and an expense.\<close>

definition accountsY :: "Account list" where
  "accountsY = [mkAccount ''cash'' ''101'' name_Cash Asset,
                mkAccount ''capital'' ''301'' name_Capital Equity,
                mkAccount ''re'' ''302'' name_RetainedEarningsCarried Equity,
                mkAccount ''sales'' ''401'' (str ''Sales'') Revenue,
                mkAccount ''rent'' ''510'' (str ''Rent'') Expense]"

definition accountsYnoRE :: "Account list" where
  "accountsYnoRE = [mkAccount ''cash'' ''101'' name_Cash Asset,
                    mkAccount ''capital'' ''301'' name_Capital Equity,
                    mkAccount ''sales'' ''401'' (str ''Sales'') Revenue,
                    mkAccount ''rent'' ''510'' (str ''Rent'') Expense]"

definition entriesY :: "JournalEntry list" where
  "entriesY = [mkEntry ''2025-05-01'' ''cash'' ''sales'' 1000,
               mkEntry ''2025-06-01'' ''rent'' ''cash'' 200,
               mkEntry ''2026-04-02'' ''cash'' ''sales'' 7000]"

definition obView :: "OpeningBalance \<Rightarrow> jsstring \<times> int" where
  "obView b = (ob_accountId b, ob_amount b)"

definition cbView :: "ClosingBalance \<Rightarrow> jsstring \<times> int" where
  "cbView b = (cb_accountId b, cb_balance b)"

text \<open>A chart with a loan, and a borrowing of 100 in cash.\<close>

definition accountsLoan :: "Account list" where
  "accountsLoan = [mkAccount ''cash'' ''101'' name_Cash Asset,
                   mkAccount ''loan'' ''210'' [20511, 20837, 37329] Liability]"

definition entriesLoan :: "JournalEntry list" where
  "entriesLoan = [mkEntry ''2025-05-01'' ''cash'' ''loan'' 100]"

section \<open>Cash flow statement (utils/cashFlow)\<close>

record Operating =
  op_netProfit :: int
  op_depreciation :: int
  accountsReceivableChange :: int
  inventoryChange :: int
  accountsPayableChange :: int
  otherCurrentAssetChange :: int
  otherCurrentLiabilityChange :: int
  op_subtotal :: int

record Investing =
  fixedAssetPurchase :: int
  fixedAssetSale :: int
  otherInvesting :: int
  inv_subtotal :: int

record Financing =
  borrowing :: int
  repayment :: int
  capitalIncrease :: int
  dividends :: int
  otherFinancing :: int
  fin_subtotal :: int

record CashFlowStatement =
  operating :: Operating
  investing :: Investing
  financing :: Financing
  totalCashFlow :: int
  beginningCash :: int
  endingCash :: int

text \<open>The classification of an account id by the name of its account.\<close>

definition isCashAccount :: "Account list \<Rightarrow> jsstring \<Rightarrow> bool" where
  "isCashAccount accounts i =
     (let n = getAccountName accounts i
      in n = [29694, 37329] \<or> str_includes n [38928, 37329] \<or> n = [23567, 21475, 29694, 37329])"

definition isReceivable :: "Account list \<Rightarrow> jsstring \<Rightarrow> bool" where
  "isReceivable accounts i =
     (let n = getAccountName accounts i
      in n = [22770, 25499, 37329] \<or> n = [21463, 21462, 25163, 24418])"

definition isInventory :: "Account list \<Rightarrow> jsstring \<Rightarrow> bool" where
  "isInventory accounts i =
     (let n = getAccountName accounts i
      in n = [21830, 21697] \<or> n = [35069, 21697] \<or> n = [21407, 26448, 26009]
         \<or> n = [20181, 25499, 21697])"

definition isPayable :: "Account list \<Rightarrow> jsstring \<Rightarrow> bool" where
  "isPayable accounts i =
     (let n = getAccountName accounts i
      in n = [36023, 25499, 37329] \<or> n = [25903, 25173, 25163, 24418])"

definition fixedAssetNames :: "jsstring list" where
  "fixedAssetNames = [[20633, 21697], [36554, 20001], [24314, 29289], [22303, 22320],
                      [27231, 26800], [12477, 12501, 12488, 12454, 12455, 12450],
                      [24037, 20855, 22120, 20855, 20633, 21697]]"

definition isFixedAsset :: "Account list \<Rightarrow> jsstring \<Rightarrow> bool" where
  "isFixedAsset accounts i =
     (let n = getAccountName accounts i in list_ex (\<lambda>x. str_includes n x) fixedAssetNames)"

definition isBorrowing :: "Account list \<Rightarrow> jsstring \<Rightarrow> bool" where
  "isBorrowing accounts i = str_includes (getAccountName accounts i) [20511, 20837, 37329]"

definition isDepreciation :: "Account list \<Rightarrow> jsstring \<Rightarrow> bool" where
  "isDepreciation accounts i =
     str_includes (getAccountName accounts i) [28187, 20385, 20767, 21364]"

definition isCapital :: "Account list \<Rightarrow> jsstring \<Rightarrow> bool" where
  "isCapital accounts i = (getAccountName accounts i = [36039, 26412, 37329])"

definition isOtherCurrentAsset :: "Account list \<Rightarrow> jsstring \<Rightarrow> bool" where
  "isOtherCurrentAsset accounts i =
     (let n = getAccountName accounts i;
          t = getAccountType accounts i
      in if t \<noteq> Some Asset then False
         else if isCashAccount accounts i then False
         else if isReceivable accounts i then False
         else if isInventory accounts i then False
         else if isFixedAsset accounts i then False
         else list_ex (\<lambda>x. str_includes n x)
                [[21069, 25173], [20206, 25173], [26410, 21454], [31435, 26367],
                 [30701, 26399, 36024, 20184]])"

definition isOtherCurrentLiability :: "Account list \<Rightarrow> jsstring \<Rightarrow> bool" where
  "isOtherCurrentLiability accounts i =
     (let n = getAccountName accounts i;
          t = getAccountType accounts i
      in if t \<noteq> Some Liability then False
         else if isPayable accounts i then False
         else if isBorrowing accounts i then False
         else list_ex (\<lambda>x. str_includes n x)
                [[26410, 25173], [21069, 21463], [20206, 21463], [38928, 12426],
                 [36062, 19982, 24341, 24403]])"

text \<open>The body of \<open>entries.forEach\<close>, on (endingBalances, revenue, expenses).\<close>

definition cashFlowStep ::
  "Account list \<Rightarrow> JournalEntry \<Rightarrow> (jsstring \<times> int) list \<times> int \<times> int
     \<Rightarrow> (jsstring \<times> int) list \<times> int \<times> int" where
  "cashFlowStep accounts entry st =
     (case st of (m, revenue, expenses) \<Rightarrow>
       (let debitType = getAccountType accounts (debitAccountId entry);
            creditType = getAccountType accounts (creditAccountId entry);
            revenue' = (if creditType = Some Revenue then revenue + amount entry else revenue);
            expenses' = (if debitType = Some Expense then expenses + amount entry
                         else expenses)
        in (postBalances accounts entry m, revenue', expenses')))"

text \<open>The accumulators of \<open>accounts.forEach\<close>.\<close>

record Changes =
  ch_receivable :: int
  ch_inventory :: int
  ch_payable :: int
  ch_fixedAsset :: int
  ch_borrowing :: int
  ch_capital :: int
  ch_otherCurrentAsset :: int
  ch_otherCurrentLiability :: int
  ch_beginningCash :: int
  ch_endingCash :: int

definition changeStep ::
  "Account list \<Rightarrow> (jsstring \<times> int) list \<Rightarrow> (jsstring \<times> int) list \<Rightarrow> Account
     \<Rightarrow> Changes \<Rightarrow> Changes" where
  "changeStep accounts beginningBalances endingBalances account ch =
     (let beginning = getOr0 beginningBalances (acc_id account);
          ending = getOr0 endingBalances (acc_id account);
          change = ending - beginning
      in if isCashAccount accounts (acc_id account)
         then ch\<lparr> ch_beginningCash := ch_beginningCash ch + beginning,
                  ch_endingCash := ch_endingCash ch + ending \<rparr>
         else if isReceivable accounts (acc_id account)
         then ch\<lparr> ch_receivable := ch_receivable ch + change \<rparr>
         else if isInventory accounts (acc_id account)
         then ch\<lparr> ch_inventory := ch_inventory ch + change \<rparr>
         else if isPayable accounts (acc_id account)
         then ch\<lparr> ch_payable := ch_payable ch - change \<rparr>
         else if isFixedAsset accounts (acc_id account)
         then ch\<lparr> ch_fixedAsset := ch_fixedAsset ch + change \<rparr>
         else if isBorrowing accounts (acc_id account)
         then ch\<lparr> ch_borrowing := ch_borrowing ch - change \<rparr>
         else if isCapital accounts (acc_id account)
         then ch\<lparr> ch_capital := ch_capital ch - change \<rparr>
         else if isOtherCurrentAsset accounts (acc_id account)
         then ch\<lparr> ch_otherCurrentAsset := ch_otherCurrentAsset ch + change \<rparr>
         else if isOtherCurrentLiability accounts (acc_id account)
         then ch\<lparr> ch_otherCurrentLiability := ch_otherCurrentLiability ch - change \<rparr>
         else ch)"

definition noChanges :: Changes where
  "noChanges = \<lparr> ch_receivable = 0, ch_inventory = 0, ch_payable = 0, ch_fixedAsset = 0,
                 ch_borrowing = 0, ch_capital = 0, ch_otherCurrentAsset = 0,
                 ch_otherCurrentLiability = 0, ch_beginningCash = 0, ch_endingCash = 0 \<rparr>"

definition calculateCashFlow ::
  "JournalEntry list \<Rightarrow> Account list \<Rightarrow> OpeningBalance list \<Rightarrow> CashFlowStatement" where
  "calculateCashFlow es accounts obs =
     (let beginningBalances = setOpening obs;
          st = fold (cashFlowStep accounts) es (setOpening obs, 0, 0);
          endingBalances = fst st;
          np = fst (snd st) - snd (snd st);
          depreciation = fold (\<lambda>entry d. if isDepreciation accounts (debitAccountId entry)
                                           then d + amount entry else d) es 0;
          ch = fold (changeStep accounts beginningBalances endingBalances) accounts noChanges;
          actualCashChange = ch_endingCash ch - ch_beginningCash ch;
          arChange = - ch_receivable ch;
          inventoryChangeCF = - ch_inventory ch;
          apChange = ch_payable ch;
          otherCurrentAssetChangeCF = - ch_otherCurrentAsset ch;
          otherCurrentLiabilityChangeCF = ch_otherCurrentLiability ch;
          purchase = (if ch_fixedAsset ch > 0 then - ch_fixedAsset ch else 0);
          sale = (if ch_fixedAsset ch < 0 then - ch_fixedAsset ch else 0);
          investingSubtotal = purchase + sale;
          borrowed = (if ch_borrowing ch > 0 then ch_borrowing ch else 0);
          repaid = (if ch_borrowing ch < 0 then ch_borrowing ch else 0);
          capitalUp = (if ch_capital ch > 0 then ch_capital ch else 0);
          financingSubtotal = borrowed + repaid + capitalUp;
          operatingSubtotal = actualCashChange - investingSubtotal - financingSubtotal;
          calculatedOperating = np + depreciation + arChange + inventoryChangeCF + apChange
                                + otherCurrentAssetChangeCF + otherCurrentLiabilityChangeCF;
          operatingAdjustment = operatingSubtotal - calculatedOperating
      in \<lparr> operating =
             \<lparr> op_netProfit = np, op_depreciation = depreciation,
               accountsReceivableChange = arChange, inventoryChange = inventoryChangeCF,
               accountsPayableChange = apChange,
               otherCurrentAssetChange = otherCurrentAssetChangeCF,
               otherCurrentLiabilityChange = otherCurrentLiabilityChangeCF + operatingAdjustment,
               op_subtotal = operatingSubtotal \<rparr>,
           investing =
             \<lparr> fixedAssetPurchase = purchase, fixedAssetSale = sale, otherInvesting = 0,
               inv_subtotal = investingSubtotal \<rparr>,
           financing =
             \<lparr> borrowing = borrowed, repayment = repaid, capitalIncrease = capitalUp,
               dividends = 0, otherFinancing = 0, fin_subtotal = financingSubtotal \<rparr>,
           totalCashFlow = actualCashChange,
           beginningCash = ch_beginningCash ch,
           endingCash = ch_endingCash ch \<rparr>)"

text \<open>The sum of the lines listed under operating activities.\<close>

definition operatingLines :: "Operating \<Rightarrow> int" where
  "operatingLines o1 =
     op_netProfit o1 + op_depreciation o1 + accountsReceivableChange o1 + inventoryChange o1
     + accountsPayableChange o1 + otherCurrentAssetChange o1 + otherCurrentLiabilityChange o1"

text \<open>
  Scenario E: entries that touch cash, revenue and expense accounts only.
\<close>

definition accountsE :: "Account list" where
  "accountsE = [mkAccount ''cash'' ''101'' name_Cash Asset,
                mkAccount ''sales'' ''401'' [22770, 19978] Revenue,
                mkAccount ''rent'' ''510'' (str ''Rent'') Expense]"

definition entriesE :: "JournalEntry list" where
  "entriesE = [mkEntry ''2025-05-01'' ''cash'' ''sales'' 1000,
               mkEntry ''2025-06-01'' ''rent'' ''cash'' 200]"

section \<open>JavaScript numbers\<close>

text \<open>
  Where the sources divide or multiply by a fraction, a \<open>number\<close> is an IEEE-754
  double. A finite double is modelled as the rational it denotes, and an arithmetic
  operation as the exact operation followed by \<open>roundDouble\<close>, rounding to the nearest
  value with a 53-bit significand, ties to the even significand. The model covers
  results whose magnitude is zero or lies in the normal range (from \<open>2^-1022\<close> up to
  \<open>2^1024\<close>): amounts of yen, rates and ratios are far inside it. Overflow to
  Infinity, subnormal results, NaN and the sign of zero are not modelled, and no
  function below divides by zero.
\<close>

fun bitLength :: "nat \<Rightarrow> nat" where
  "bitLength n = (if n = 0 then 0 else Suc (bitLength (n div 2)))"

declare bitLength.simps [simp del]

definition pow2 :: "int \<Rightarrow> rat" where
  "pow2 e = (if 0 \<le> e then 2 ^ nat e else 1 / 2 ^ nat (- e))"

text \<open>The binary exponent of a positive rational: \<open>2^e \<le> x < 2^(e+1)\<close>.\<close>

definition binaryExponent :: "rat \<Rightarrow> int" where
  "binaryExponent x =
     (if 1 \<le> x then int (bitLength (nat \<lfloor>x\<rfloor>)) - 1
      else - int (bitLength (nat (\<lceil>1 / x\<rceil> - 1))))"

definition roundHalfEven :: "rat \<Rightarrow> int" where
  "roundHalfEven q =
     (let f = \<lfloor>q\<rfloor>; d = q - of_int f
      in if d < 1 / 2 then f else if 1 / 2 < d then f + 1 else if even f then f else f + 1)"

definition roundDouble :: "rat \<Rightarrow> rat" where
  "roundDouble x =
     (if x = 0 then 0
      else (let u = pow2 (binaryExponent \<bar>x\<bar> - 52)
            in of_int (roundHalfEven (x / u)) * u))"

definition jsAdd :: "rat \<Rightarrow> rat \<Rightarrow> rat" where
  "jsAdd a b = roundDouble (a + b)"

definition jsMul :: "rat \<Rightarrow> rat \<Rightarrow> rat" where
  "jsMul a b = roundDouble (a * b)"

definition jsDiv :: "rat \<Rightarrow> rat \<Rightarrow> rat" where
  "jsDiv a b = roundDouble (a / b)"

section \<open>Consumption tax (utils/taxCalculation)\<close>

datatype TaxRate = Rate0 | Rate8 | Rate10

fun rateValue :: "TaxRate \<Rightarrow> rat" where
  "rateValue Rate0 = 0"
| "rateValue Rate8 = 8"
| "rateValue Rate10 = 10"

datatype TaxIncluded = Included | Excluded

record TaxCalculation =
  baseAmount :: int
  taxAmount :: int
  tc_totalAmount :: int
  taxRate :: TaxRate

text \<open>
  The amount is an integer number of yen of magnitude below \<open>2^53\<close>; on such values
  \<open>amount - baseAmount\<close> and \<open>amount + taxAmount\<close> are exact. \<open>taxRate / 100\<close>,
  \<open>1 + rate\<close>, the division and the multiplication are double operations, and
  \<open>Math.floor\<close> is the floor of the double they return.
\<close>

definition calculateTax :: "int \<Rightarrow> TaxRate \<Rightarrow> TaxIncluded \<Rightarrow> TaxCalculation" where
  "calculateTax amt rate taxIncluded =
     (if rate = Rate0
      then \<lparr> baseAmount = amt, taxAmount = 0, tc_totalAmount = amt, taxRate = Rate0 \<rparr>
      else (let r = jsDiv (rateValue rate) 100
            in if taxIncluded = Included
               then (let base = \<lfloor>jsDiv (of_int amt) (jsAdd 1 r)\<rfloor>;
                         tax = amt - base
                     in \<lparr> baseAmount = base, taxAmount = tax, tc_totalAmount = amt,
                          taxRate = rate \<rparr>)
               else (let tax = \<lfloor>jsMul (of_int amt) r\<rfloor>;
                         tot = amt + tax
                     in \<lparr> baseAmount = amt, taxAmount = tax, tc_totalAmount = tot,
                          taxRate = rate \<rparr>)))"

text \<open>The tax-exclusive amount in exact arithmetic: \<open>floor(amount / (1 + rate/100))\<close>.\<close>

definition exactBase :: "int \<Rightarrow> TaxRate \<Rightarrow> int" where
  "exactBase amt rate = \<lfloor>of_int amt / (1 + rateValue rate / 100)\<rfloor>"

definition exactTax :: "int \<Rightarrow> TaxRate \<Rightarrow> int" where
  "exactTax amt rate = \<lfloor>of_int amt * rateValue rate / 100\<rfloor>"

section \<open>Financial indicators (utils/financialIndicators)\<close>

text \<open>An indicator is \<open>number | null\<close>: \<open>None\<close> is null, \<open>Some q\<close> the double \<open>q\<close>.\<close>

record FinancialIndicators =
  grossProfitMargin :: "rat option"
  operatingProfitMargin :: "rat option"
  netProfitMargin :: "rat option"
  currentRatio :: "rat option"
  equityRatio :: "rat option"
  debtEquityRatio :: "rat option"
  totalAssetTurnover :: "rat option"
  receivablesTurnover :: "rat option"
  fi_revenue :: int
  fi_costOfSales :: int
  fi_grossProfit :: int
  fi_operatingExpenses :: int
  fi_operatingProfit :: int
  fi_netProfit :: int
  fi_totalAssets :: int
  fi_totalLiabilities :: int
  fi_equity :: int
  fi_currentAssets :: int
  fi_currentLiabilities :: int
  fi_receivables :: int

definition isCostOfSales :: "Account list \<Rightarrow> jsstring \<Rightarrow> bool" where
  "isCostOfSales accounts i =
     (let n = getAccountName accounts i
      in n = [20181, 20837] \<or> str_includes n [22770, 19978, 21407, 20385])"

definition isCurrentAsset :: "Account list \<Rightarrow> jsstring \<Rightarrow> bool" where
  "isCurrentAsset accounts i =
     (let n = getAccountName accounts i
      in list_ex (\<lambda>x. str_includes n x)
           [[29694, 37329], [26222, 36890, 38928, 37329], [24403, 24231, 38928, 37329],
            [22770, 25499, 37329], [21830, 21697], [21463, 21462, 25163, 24418],
            [26377, 20385, 35388, 21048], [21069, 25173]])"

definition isCurrentLiability :: "Account list \<Rightarrow> jsstring \<Rightarrow> bool" where
  "isCurrentLiability accounts i =
     (let n = getAccountName accounts i
      in list_ex (\<lambda>x. str_includes n x)
           [[36023, 25499, 37329], [26410, 25173], [21069, 21463], [30701, 26399, 20511, 20837],
            [25903, 25173, 25163, 24418], [20206, 21463]])"

text \<open>The body of \<open>entries.forEach\<close>, on (balances, revenue, costOfSales, operatingExpenses).\<close>

definition indicatorStep ::
  "Account list \<Rightarrow> JournalEntry \<Rightarrow> (jsstring \<times> int) list \<times> int \<times> int \<times> int
     \<Rightarrow> (jsstring \<times> int) list \<times> int \<times> int \<times> int" where
  "indicatorStep accounts entry st =
     (case st of (m, revenue, costOfSales, operatingExpenses) \<Rightarrow>
       (let debitType = getAccountType accounts (debitAccountId entry);
            creditType = getAccountType accounts (creditAccountId entry);
            revenue' = (if creditType = Some Revenue then revenue + amount entry else revenue);
            costOfSales' = (if debitType = Some Expense
                                \<and> isCostOfSales accounts (debitAccountId entry)
                            then costOfSales + amount entry else costOfSales);
            operatingExpenses' = (if debitType = Some Expense
                                      \<and> \<not> isCostOfSales accounts (debitAccountId entry)
                                  then operatingExpenses + amount entry else operatingExpenses)
        in (postBalances accounts entry m, revenue', costOfSales', operatingExpenses')))"

text \<open>The accumulators of \<open>balances.forEach\<close>.\<close>

record SheetTotals =
  st_totalAssets :: int
  st_totalLiabilities :: int
  st_equity :: int
  st_currentAssets :: int
  st_currentLiabilities :: int
  st_receivables :: int

definition sheetStep :: "Account list \<Rightarrow> jsstring \<times> int \<Rightarrow> SheetTotals \<Rightarrow> SheetTotals" where
  "sheetStep accounts kv t =
     (case kv of (accountId, bal) \<Rightarrow>
       (let ty = getAccountType accounts accountId;
            t1 = (if ty = Some Asset
                  then (let a1 = t\<lparr> st_totalAssets := st_totalAssets t + bal \<rparr>;
                            a2 = (if isCurrentAsset accounts accountId
                                  then a1\<lparr> st_currentAssets := st_currentAssets a1 + bal \<rparr>
                                  else a1)
                        in if isReceivable accounts accountId
                           then a2\<lparr> st_receivables := st_receivables a2 + bal \<rparr> else a2)
                  else t);
            t2 = (if ty = Some Liability
                  then (let l1 = t1\<lparr> st_totalLiabilities := st_totalLiabilities t1 - bal \<rparr>
                        in if isCurrentLiability accounts accountId
                           then l1\<lparr> st_currentLiabilities := st_currentLiabilities l1 - bal \<rparr>
                           else l1)
                  else t1)
        in if ty = Some Equity then t2\<lparr> st_equity := st_equity t2 - bal \<rparr> else t2))"

definition noSheetTotals :: SheetTotals where
  "noSheetTotals = \<lparr> st_totalAssets = 0, st_totalLiabilities = 0, st_equity = 0,
                     st_currentAssets = 0, st_currentLiabilities = 0, st_receivables = 0 \<rparr>"

text \<open>\<open>d > 0 ? (n / d) * 100 : null\<close> and \<open>d > 0 ? n / d : null\<close>, on integer totals.\<close>

definition percentOf :: "int \<Rightarrow> int \<Rightarrow> rat option" where
  "percentOf n d = (if d > 0 then Some (jsMul (jsDiv (of_int n) (of_int d)) 100) else None)"

definition ratioOf :: "int \<Rightarrow> int \<Rightarrow> rat option" where
  "ratioOf n d = (if d > 0 then Some (jsDiv (of_int n) (of_int d)) else None)"

definition calculateFinancialIndicators ::
  "JournalEntry list \<Rightarrow> Account list \<Rightarrow> OpeningBalance list \<Rightarrow> FinancialIndicators" where
  "calculateFinancialIndicators es accounts obs =
     (case fold (indicatorStep accounts) es (setOpening obs, 0, 0, 0) of
        (balances, revenue, costOfSales, operatingExpenses) \<Rightarrow>
          (let t = fold (sheetStep accounts) balances noSheetTotals;
               grossProfit = revenue - costOfSales;
               operatingProfit = grossProfit - operatingExpenses;
               np = operatingProfit
           in \<lparr> grossProfitMargin = percentOf grossProfit revenue,
                operatingProfitMargin = percentOf operatingProfit revenue,
                netProfitMargin = percentOf np revenue,
                currentRatio = percentOf (st_currentAssets t) (st_currentLiabilities t),
                equityRatio = percentOf (st_equity t) (st_totalAssets t),
                debtEquityRatio = percentOf (st_totalLiabilities t) (st_equity t),
                totalAssetTurnover = ratioOf revenue (st_totalAssets t),
                receivablesTurnover = ratioOf revenue (st_receivables t),
                fi_revenue = revenue, fi_costOfSales = costOfSales,
                fi_grossProfit = grossProfit, fi_operatingExpenses = operatingExpenses,
                fi_operatingProfit = operatingProfit, fi_netProfit = np,
                fi_totalAssets = st_totalAssets t, fi_totalLiabilities = st_totalLiabilities t,
                fi_equity = st_equity t, fi_currentAssets = st_currentAssets t,
                fi_currentLiabilities = st_currentLiabilities t,
                fi_receivables = st_receivables t \<rparr>))"

text \<open>Revenue as a sum over the entries: the amounts credited to revenue accounts.\<close>

definition creditedRevenue :: "Account list \<Rightarrow> JournalEntry list \<Rightarrow> int" where
  "creditedRevenue accounts es =
     (\<Sum>e\<leftarrow>es. if getAccountType accounts (creditAccountId e) = Some Revenue then amount e else 0)"

text \<open>
  Concrete inputs: sales on credit and for cash with purchases on credit; and the same
  chart where a customer has paid 500 in advance on the receivable account and a
  supplier's payable carries an opening debit balance of 100.
\<close>

definition accountsI :: "Account list" where
  "accountsI = [mkAccount ''cash'' ''101'' name_Cash Asset,
                mkAccount ''ar'' ''110'' [22770, 25499, 37329] Asset,
                mkAccount ''ap'' ''201'' [36023, 25499, 37329] Liability,
                mkAccount ''capital'' ''301'' name_Capital Equity,
                mkAccount ''sales'' ''401'' [22770, 19978] Revenue,
                mkAccount ''purchases'' ''501'' [20181, 20837] Expense]"

definition openingI :: "OpeningBalance list" where
  "openingI = [\<lparr> ob_accountId = str ''cash'', ob_amount = 1000 \<rparr>,
               \<lparr> ob_accountId = str ''ap'', ob_amount = - 400 \<rparr>,
               \<lparr> ob_accountId = str ''capital'', ob_amount = - 600 \<rparr>]"

definition entriesI :: "JournalEntry list" where
  "entriesI = [mkEntry ''2025-05-01'' ''ar'' ''sales'' 3000,
               mkEntry ''2025-05-02'' ''purchases'' ''cash'' 900]"

definition openingPrepaid :: "OpeningBalance list" where
  "openingPrepaid = [\<lparr> ob_accountId = str ''ap'', ob_amount = 100 \<rparr>]"

definition entriesPrepaid :: "JournalEntry list" where
  "entriesPrepaid = [mkEntry ''2025-05-01'' ''cash'' ''ar'' 500,
                     mkEntry ''2025-05-02'' ''cash'' ''sales'' 2000]"

section \<open>Theorems: depreciation journals\<close>

lemma posting_fold_depreciationStep:
  "fold (depreciationStep env de ad fys fy) as (es, tot, cnt) = (es', tot', cnt') \<Longrightarrow>
   map posting es' = map posting es @
     map (\<lambda>s. (acc_id de, acc_id ad, depreciationAmount s, yearEndDate s))
         (List.map_filter (currentYearSchedule env fys fy) as)
   \<and> tot' = tot + sum_list (map depreciationAmount
                 (List.map_filter (currentYearSchedule env fys fy) as))
   \<and> cnt' = cnt + length (List.map_filter (currentYearSchedule env fys fy) as)"
proof (induction as arbitrary: es tot cnt)
  case Nil
  then show ?case by simp
next
  case (Cons a as)
  obtain es1 tot1 cnt1
    where st: "depreciationStep env de ad fys fy a (es, tot, cnt) = (es1, tot1, cnt1)"
    by (cases "depreciationStep env de ad fys fy a (es, tot, cnt)") auto
  from Cons.prems st
  have "fold (depreciationStep env de ad fys fy) as (es1, tot1, cnt1) = (es', tot', cnt')"
    by simp
  note IH = Cons.IH [OF this]
  show ?case
  proof (cases "currentYearSchedule env fys fy a")
    case None
    with st have "es1 = es \<and> tot1 = tot \<and> cnt1 = cnt"
      by (auto simp: depreciationStep_def currentYearSchedule_def
               split: option.splits if_splits)
    with IH None show ?thesis by simp
  next
    case (Some s)
    with st have "map posting es1 =
          map posting es @ [(acc_id de, acc_id ad, depreciationAmount s, yearEndDate s)]
        \<and> tot1 = tot + depreciationAmount s \<and> cnt1 = Suc cnt"
      by (auto simp: depreciationStep_def currentYearSchedule_def posting_def
               split: option.splits if_splits)
    with IH Some show ?thesis by simp
  qed
qed

text \<open>
  C8. When the account named Depreciation Expense or the account named Accumulated
  Depreciation is missing from the chart of accounts, generateDepreciationJournals
  returns no entry, a zero total and exactly one error naming the missing account.
  When both exist it returns no error and one entry per non-disposed asset whose
  current-year schedule has a nonzero amount, in the order of the assets: the entry
  debits the Depreciation Expense account, credits the Accumulated Depreciation
  account, carries that amount and is dated at the schedule's year end; the total is
  the sum of these amounts and the asset count their number.
\<close>

theorem generateDepreciationJournals_batch:
  "((\<forall>a \<in> set accounts. acc_name a \<noteq> name_DepreciationExpense) \<longrightarrow>
      generateDepreciationJournals env assets accounts fys fy =
        \<lparr> entries = [], totalAmount = 0, assetCount = 0,
          errors = [MissingDepreciationExpense] \<rparr>)
   \<and> ((\<exists>a \<in> set accounts. acc_name a = name_DepreciationExpense) \<and>
       (\<forall>a \<in> set accounts. acc_name a \<noteq> name_AccumulatedDepreciation) \<longrightarrow>
      generateDepreciationJournals env assets accounts fys fy =
        \<lparr> entries = [], totalAmount = 0, assetCount = 0,
          errors = [MissingAccumulatedDepreciation] \<rparr>)
   \<and> (getDepreciationExpenseAccount accounts = Some de \<and>
       getAccumulatedDepreciationAccount accounts = Some ad \<longrightarrow>
      (let r = generateDepreciationJournals env assets accounts fys fy;
           due = List.map_filter (currentYearSchedule env fys fy)
                   (filter (\<lambda>asset. \<not> isDisposed asset) assets)
       in errors r = []
        \<and> map posting (entries r) =
            map (\<lambda>s. (acc_id de, acc_id ad, depreciationAmount s, yearEndDate s)) due
        \<and> totalAmount r = sum_list (map depreciationAmount due)
        \<and> assetCount r = length due))"
proof (intro conjI impI)
  assume "\<forall>a \<in> set accounts. acc_name a \<noteq> name_DepreciationExpense"
  then have "getDepreciationExpenseAccount accounts = None"
    by (auto simp: getDepreciationExpenseAccount_def findAccountByName_def find_None_iff)
  then show "generateDepreciationJournals env assets accounts fys fy =
        \<lparr> entries = [], totalAmount = 0, assetCount = 0,
          errors = [MissingDepreciationExpense] \<rparr>"
    by (simp add: generateDepreciationJournals_def)
next
  assume a: "(\<exists>a \<in> set accounts. acc_name a = name_DepreciationExpense) \<and>
       (\<forall>a \<in> set accounts. acc_name a \<noteq> name_AccumulatedDepreciation)"
  then have "getDepreciationExpenseAccount accounts \<noteq> None"
    by (auto simp: getDepreciationExpenseAccount_def findAccountByName_def find_None_iff)
  moreover from a have "getAccumulatedDepreciationAccount accounts = None"
    by (auto simp: getAccumulatedDepreciationAccount_def findAccountByName_def find_None_iff)
  ultimately show "generateDepreciationJournals env assets accounts fys fy =
        \<lparr> entries = [], totalAmount = 0, assetCount = 0,
          errors = [MissingAccumulatedDepreciation] \<rparr>"
    by (auto simp: generateDepreciationJournals_def)
next
  assume b: "getDepreciationExpenseAccount accounts = Some de \<and>
       getAccumulatedDepreciationAccount accounts = Some ad"
  obtain es tot cnt where f: "fold (depreciationStep env de ad fys fy)
        (filter (\<lambda>asset. \<not> isDisposed asset) assets) ([], 0, 0) = (es, tot, cnt)"
    by (cases "fold (depreciationStep env de ad fys fy)
        (filter (\<lambda>asset. \<not> isDisposed asset) assets) ([], 0, 0)") auto
  from b f have r: "generateDepreciationJournals env assets accounts fys fy =
      \<lparr> entries = es, totalAmount = tot, assetCount = cnt, errors = [] \<rparr>"
    by (simp add: generateDepreciationJournals_def)
  from posting_fold_depreciationStep [OF f] r
  show "let r = generateDepreciationJournals env assets accounts fys fy;
           due = List.map_filter (currentYearSchedule env fys fy)
                   (filter (\<lambda>asset. \<not> isDisposed asset) assets)
       in errors r = []
        \<and> map posting (entries r) =
            map (\<lambda>s. (acc_id de, acc_id ad, depreciationAmount s, yearEndDate s)) due
        \<and> totalAmount r = sum_list (map depreciationAmount due)
        \<and> assetCount r = length due"
    by (simp add: Let_def)
qed

theorem generateDepreciationJournals_batch_witness:
  "generateDepreciationJournals wEnv wAssets [] (str ''2025-04-01'') 2025 =
     \<lparr> entries = [], totalAmount = 0, assetCount = 0, errors = [MissingDepreciationExpense] \<rparr>
   \<and> generateDepreciationJournals wEnv wAssets [wDepExp] (str ''2025-04-01'') 2025 =
     \<lparr> entries = [], totalAmount = 0, assetCount = 0,
       errors = [MissingAccumulatedDepreciation] \<rparr>
   \<and> getDepreciationExpenseAccount [wDepExp, wAccDep] = Some wDepExp
   \<and> getAccumulatedDepreciationAccount [wDepExp, wAccDep] = Some wAccDep
   \<and> map posting (entries (generateDepreciationJournals wEnv wAssets [wDepExp, wAccDep]
                             (str ''2025-04-01'') 2025)) =
       [(str ''acc-520'', str ''acc-160'', 200, str ''2026-03-31'')]
   \<and> totalAmount (generateDepreciationJournals wEnv wAssets [wDepExp, wAccDep]
                     (str ''2025-04-01'') 2025) = 200"
proof -
  have g: "getDepreciationExpenseAccount [wDepExp, wAccDep] = Some wDepExp
         \<and> getAccumulatedDepreciationAccount [wDepExp, wAccDep] = Some wAccDep"
    by (simp add: getDepreciationExpenseAccount_def getAccumulatedDepreciationAccount_def
          findAccountByName_def wDepExp_def wAccDep_def name_DepreciationExpense_def
          name_AccumulatedDepreciation_def)
  have due: "List.map_filter (currentYearSchedule wEnv (str ''2025-04-01'') 2025)
               (filter (\<lambda>asset. \<not> isDisposed asset) wAssets) =
             [\<lparr> fiscalYear = 2025, yearStartDate = str ''2025-04-01'',
                 yearEndDate = str ''2026-03-31'', beginningBookValue = 1000,
                 depreciationAmount = 200, accumulatedDepreciation = 200,
                 endingBookValue = 800, months = 12 \<rparr>]"
    by (simp add: wAssets_def wAsset_def wEnv_def currentYearSchedule_def)
  have ids: "acc_id wDepExp = str ''acc-520'' \<and> acc_id wAccDep = str ''acc-160''"
    by (simp add: wDepExp_def wAccDep_def)
  have n1: "\<forall>a \<in> set []. acc_name a \<noteq> name_DepreciationExpense" by simp
  have n2: "(\<exists>a \<in> set [wDepExp]. acc_name a = name_DepreciationExpense) \<and>
       (\<forall>a \<in> set [wDepExp]. acc_name a \<noteq> name_AccumulatedDepreciation)"
    by (simp add: wDepExp_def name_DepreciationExpense_def name_AccumulatedDepreciation_def)
  have r1: "generateDepreciationJournals wEnv wAssets [] (str ''2025-04-01'') 2025 =
     \<lparr> entries = [], totalAmount = 0, assetCount = 0, errors = [MissingDepreciationExpense] \<rparr>"
    using generateDepreciationJournals_batch
         [of "[]" wEnv wAssets "str ''2025-04-01''" 2025 wDepExp wAccDep] n1
    by blast
  have r2: "generateDepreciationJournals wEnv wAssets [wDepExp] (str ''2025-04-01'') 2025 =
     \<lparr> entries = [], totalAmount = 0, assetCount = 0,
       errors = [MissingAccumulatedDepreciation] \<rparr>"
    using generateDepreciationJournals_batch
         [of "[wDepExp]" wEnv wAssets "str ''2025-04-01''" 2025 wDepExp wAccDep] n2
    by blast
  have r3: "map posting (entries (generateDepreciationJournals wEnv wAssets [wDepExp, wAccDep]
                             (str ''2025-04-01'') 2025)) =
            map (\<lambda>s. (acc_id wDepExp, acc_id wAccDep, depreciationAmount s, yearEndDate s))
              (List.map_filter (currentYearSchedule wEnv (str ''2025-04-01'') 2025)
                 (filter (\<lambda>asset. \<not> isDisposed asset) wAssets))
       \<and> totalAmount (generateDepreciationJournals wEnv wAssets [wDepExp, wAccDep]
                     (str ''2025-04-01'') 2025) =
            sum_list (map depreciationAmount
              (List.map_filter (currentYearSchedule wEnv (str ''2025-04-01'') 2025)
                 (filter (\<lambda>asset. \<not> isDisposed asset) wAssets)))"
    using generateDepreciationJournals_batch
         [of "[wDepExp, wAccDep]" wEnv wAssets "str ''2025-04-01''" 2025 wDepExp wAccDep] g
    unfolding Let_def by blast
  from r1 r2 r3 g due ids show ?thesis
    by simp
qed

text \<open>
  C10. When no account of the chart is named Depreciation Expense,
  hasDepreciationJournals returns false for every entry list and every period, and in
  that same configuration generateDepreciationJournals fails with the error naming the
  missing Depreciation Expense account.
\<close>

theorem hasDepreciationJournals_no_account:
  "\<forall>a \<in> set accounts. acc_name a \<noteq> name_DepreciationExpense \<Longrightarrow>
     hasDepreciationJournals journalEntries accounts fiscalYearStart fiscalYearEnd = False
   \<and> errors (generateDepreciationJournals env assets accounts fiscalYearStart fy) =
       [MissingDepreciationExpense]"
proof -
  assume "\<forall>a \<in> set accounts. acc_name a \<noteq> name_DepreciationExpense"
  then have "getDepreciationExpenseAccount accounts = None"
    by (auto simp: getDepreciationExpenseAccount_def findAccountByName_def find_None_iff)
  then show ?thesis
    by (simp add: hasDepreciationJournals_def generateDepreciationJournals_def)
qed

theorem hasDepreciationJournals_no_account_witness:
  "acc_name wAccDep \<noteq> name_DepreciationExpense
   \<and> hasDepreciationJournals [wDepEntry] [wAccDep] (str ''2025-04-01'') (str ''2026-03-31'')
       = False
   \<and> hasDepreciationJournals [wDepEntry] [wDepExp, wAccDep] (str ''2025-04-01'')
       (str ''2026-03-31'') = True
   \<and> errors (generateDepreciationJournals wEnv wAssets [wAccDep] (str ''2025-04-01'') 2025) =
       [MissingDepreciationExpense]"
proof -
  have n: "\<forall>a \<in> set [wAccDep]. acc_name a \<noteq> name_DepreciationExpense"
    by (simp add: wAccDep_def name_DepreciationExpense_def name_AccumulatedDepreciation_def)
  have t: "hasDepreciationJournals [wDepEntry] [wDepExp, wAccDep] (str ''2025-04-01'')
       (str ''2026-03-31'') = True"
    by (simp add: hasDepreciationJournals_def getDepreciationExpenseAccount_def
          findAccountByName_def wDepExp_def wDepEntry_def str_le_def
          name_DepreciationExpense_def)
  from hasDepreciationJournals_no_account [OF n, of "[wDepEntry]" "str ''2025-04-01''"
         "str ''2026-03-31''" wEnv wAssets 2025] n t
  show ?thesis by simp
qed

section \<open>Theorems: trial balance\<close>

lemma getTotals_update:
  "getTotals (AList.update k v m) k' = (if k' = k then v else getTotals m k')"
  by (simp add: getTotals_def update_conv')

lemma getTotals_applyEntry:
  "getTotals (applyEntry e m) k =
     \<lparr> debit = debit (getTotals m k) + (if debitAccountId e = k then amount e else 0),
       credit = credit (getTotals m k) + (if creditAccountId e = k then amount e else 0) \<rparr>"
  by (simp add: applyEntry_def Let_def getTotals_update)

lemma getTotals_applyOpening:
  "getTotals (applyOpening b m) k =
     \<lparr> debit = debit (getTotals m k)
                + (if ob_accountId b = k \<and> ob_amount b > 0 then ob_amount b else 0),
       credit = credit (getTotals m k)
                + (if ob_accountId b = k \<and> \<not> ob_amount b > 0 then \<bar>ob_amount b\<bar> else 0) \<rparr>"
  by (simp add: applyOpening_def Let_def getTotals_update)

lemma getTotals_fold_applyEntry:
  "getTotals (fold applyEntry es m) k =
     \<lparr> debit = debit (getTotals m k) + entryDebit es k,
       credit = credit (getTotals m k) + entryCredit es k \<rparr>"
  by (induction es arbitrary: m)
     (simp_all add: getTotals_applyEntry entryDebit_def entryCredit_def)

lemma getTotals_fold_applyOpening:
  "getTotals (fold applyOpening bs m) k =
     \<lparr> debit = debit (getTotals m k) + openingDebit bs k,
       credit = credit (getTotals m k) + openingCredit bs k \<rparr>"
  by (induction bs arbitrary: m)
     (simp_all add: getTotals_applyOpening openingDebit_def openingCredit_def)

lemma getTotals_accountTotals:
  "getTotals (accountTotals fes bs inc) k =
     \<lparr> debit = (if inc then openingDebit bs k else 0) + entryDebit fes k,
       credit = (if inc then openingCredit bs k else 0) + entryCredit fes k \<rparr>"
  by (simp add: accountTotals_def getTotals_fold_applyEntry getTotals_fold_applyOpening)
     (simp add: getTotals_def)

lemma dom_applyEntry:
  "dom (map_of (applyEntry e m)) = insert (creditAccountId e) (insert (debitAccountId e) (dom (map_of m)))"
  by (simp add: applyEntry_def Let_def update_conv')

lemma dom_fold_applyEntry:
  "dom (map_of (fold applyEntry es m)) =
     dom (map_of m) \<union> set (map debitAccountId es) \<union> set (map creditAccountId es)"
  by (induction es arbitrary: m) (auto simp: dom_applyEntry)

lemma set_setAdd: "set (setAdd x s) = insert x (set s)"
  by (auto simp: setAdd_def)

lemma distinct_setAdd: "distinct s \<Longrightarrow> distinct (setAdd x s)"
  by (auto simp: setAdd_def)

lemma set_fold_missingStep:
  "set (fold (missingStep accounts) fes s) =
     set s \<union> ((set (map debitAccountId fes) \<union> set (map creditAccountId fes))
                - set (map acc_id accounts))"
  by (induction fes arbitrary: s) (auto simp: missingStep_def Let_def set_setAdd)

lemma distinct_fold_missingStep:
  "distinct s \<Longrightarrow> distinct (fold (missingStep accounts) fes s)"
  by (induction fes arbitrary: s) (auto simp: missingStep_def Let_def distinct_setAdd)

lemma set_missingAccountIds:
  "set (missingAccountIds fes accounts) =
     (set (map debitAccountId fes) \<union> set (map creditAccountId fes)) - set (map acc_id accounts)"
  by (simp add: missingAccountIds_def set_fold_missingStep)

lemma distinct_missingAccountIds: "distinct (missingAccountIds fes accounts)"
  by (simp add: missingAccountIds_def distinct_fold_missingStep)

lemma mset_insertRow: "mset (insertRow c r xs) = add_mset r (mset xs)"
  by (induction xs) auto

lemma mset_sortRows: "mset (sortRows c rows) = mset rows"
  by (induction rows) (auto simp: sortRows_def mset_insertRow)

lemma sum_list_sortRows: "sum_list (map f (sortRows c rows)) = sum_list (map (f::BalanceRow \<Rightarrow> int) rows)"
proof -
  have "sum_mset (image_mset f (mset (sortRows c rows))) = sum_mset (image_mset f (mset rows))"
    by (simp add: mset_sortRows)
  then show ?thesis by (simp add: sum_mset_sum_list flip: mset_map)
qed

lemma totals_sums:
  "totals rows = \<lparr> tt_debitTotal = sum_list (map debitTotal rows),
                   tt_creditTotal = sum_list (map creditTotal rows),
                   tt_debitBalance = sum_list (map debitBalance rows),
                   tt_creditBalance = sum_list (map creditBalance rows) \<rparr>"
proof -
  have "fold (\<lambda>row acc. \<lparr> tt_debitTotal = tt_debitTotal acc + debitTotal row,
                       tt_creditTotal = tt_creditTotal acc + creditTotal row,
                       tt_debitBalance = tt_debitBalance acc + debitBalance row,
                       tt_creditBalance = tt_creditBalance acc + creditBalance row \<rparr>) rows a
        = \<lparr> tt_debitTotal = tt_debitTotal a + sum_list (map debitTotal rows),
                   tt_creditTotal = tt_creditTotal a + sum_list (map creditTotal rows),
                   tt_debitBalance = tt_debitBalance a + sum_list (map debitBalance rows),
                   tt_creditBalance = tt_creditBalance a + sum_list (map creditBalance rows) \<rparr>" for a
    by (induction rows arbitrary: a) simp_all
  then show ?thesis by (simp add: totals_def)
qed


lemma sum_list_indicator:
  "distinct K \<Longrightarrow> (\<Sum>k\<leftarrow>K. if x = k then a else 0) = (if x \<in> set K then a else (0::int))"
  by (induction K) auto

lemma sum_entryDebit:
  "distinct K \<Longrightarrow>
   (\<Sum>k\<leftarrow>K. entryDebit fes k) = (\<Sum>e\<leftarrow>filter (\<lambda>e. debitAccountId e \<in> set K) fes. amount e)"
proof (induction fes)
  case Nil
  then show ?case by (simp add: entryDebit_def)
next
  case (Cons e es)
  have "(\<Sum>k\<leftarrow>K. entryDebit (e # es) k) =
        (\<Sum>k\<leftarrow>K. if debitAccountId e = k then amount e else 0) + (\<Sum>k\<leftarrow>K. entryDebit es k)"
    by (simp add: entryDebit_def flip: sum_list_addf) (rule arg_cong [where f = sum_list], auto)
  with Cons show ?case by (simp add: sum_list_indicator)
qed

lemma sum_entryCredit:
  "distinct K \<Longrightarrow>
   (\<Sum>k\<leftarrow>K. entryCredit fes k) = (\<Sum>e\<leftarrow>filter (\<lambda>e. creditAccountId e \<in> set K) fes. amount e)"
proof (induction fes)
  case Nil
  then show ?case by (simp add: entryCredit_def)
next
  case (Cons e es)
  have "(\<Sum>k\<leftarrow>K. entryCredit (e # es) k) =
        (\<Sum>k\<leftarrow>K. if creditAccountId e = k then amount e else 0) + (\<Sum>k\<leftarrow>K. entryCredit es k)"
    by (simp add: entryCredit_def flip: sum_list_addf) (rule arg_cong [where f = sum_list], auto)
  with Cons show ?case by (simp add: sum_list_indicator)
qed

lemma sum_opening:
  "distinct K \<Longrightarrow>
   (\<Sum>k\<leftarrow>K. openingDebit bs k - openingCredit bs k) =
   (\<Sum>b\<leftarrow>filter (\<lambda>b. ob_accountId b \<in> set K) bs. ob_amount b)"
proof (induction bs)
  case Nil
  then show ?case by (simp add: openingDebit_def openingCredit_def)
next
  case (Cons b bs)
  have "(\<Sum>k\<leftarrow>K. openingDebit (b # bs) k - openingCredit (b # bs) k) =
        (\<Sum>k\<leftarrow>K. if ob_accountId b = k then ob_amount b else 0)
        + (\<Sum>k\<leftarrow>K. openingDebit bs k - openingCredit bs k)"
    by (simp add: openingDebit_def openingCredit_def flip: sum_list_addf)
       (rule arg_cong [where f = sum_list], auto)
  with Cons show ?case by (simp add: sum_list_indicator)
qed


lemma setBalances_fields [simp]:
  "debitTotal (setBalances r) = debitTotal r"
  "creditTotal (setBalances r) = creditTotal r"
  "row_accountId (setBalances r) = row_accountId r"
  "row_code (setBalances r) = row_code r"
  "row_type (setBalances r) = row_type r"
  by (simp_all add: setBalances_def Let_def)

lemma setBalances_net:
  "debitBalance (setBalances r) - creditBalance (setBalances r) = debitTotal r - creditTotal r"
  by (simp add: setBalances_def Let_def)

lemma sum_accountRows:
  "(\<Sum>r\<leftarrow>map (accountRow m) (filter (\<lambda>account. map_of m (acc_id account) \<noteq> None) accounts).
       f (debitTotal r) (creditTotal r)) =
   (\<Sum>k\<leftarrow>map acc_id accounts. f (debit (getTotals m k)) (credit (getTotals m k)))"
  if "f 0 0 = (0::int)"
proof -
  have "(\<Sum>a\<leftarrow>filter (\<lambda>account. map_of m (acc_id account) \<noteq> None) accounts.
            f (debit (getTotals m (acc_id a))) (credit (getTotals m (acc_id a)))) =
        (\<Sum>a\<leftarrow>accounts. f (debit (getTotals m (acc_id a))) (credit (getTotals m (acc_id a))))"
    by (rule sum_list_map_filter) (auto simp: getTotals_def that)
  then show ?thesis
    by (simp add: comp_def accountRow_def Let_def)
qed

lemma sum_unknownRows:
  "(\<Sum>r\<leftarrow>List.map_filter (\<lambda>missingId. map_option (unknownRow missingId) (map_of m missingId)) ks.
       f (debitTotal r) (creditTotal r)) =
   (\<Sum>k\<leftarrow>ks. f (debit (getTotals m k)) (credit (getTotals m k)))"
  if "f 0 0 = (0::int)"
  by (induction ks) (auto simp: getTotals_def unknownRow_def that split: option.splits)

lemma sum_balanceData:
  assumes "f 0 0 = (0::int)"
  shows "(\<Sum>r\<leftarrow>balanceData c fes accounts bs inc. f (debitTotal r) (creditTotal r)) =
     (\<Sum>k\<leftarrow>map acc_id accounts @ missingAccountIds fes accounts.
        f (debit (getTotals (accountTotals fes bs inc) k))
          (credit (getTotals (accountTotals fes bs inc) k)))"
proof -
  let ?m = "accountTotals fes bs inc"
  let ?rows = "map (accountRow ?m) (filter (\<lambda>account. map_of ?m (acc_id account) \<noteq> None) accounts)
      @ List.map_filter (\<lambda>missingId. map_option (unknownRow missingId) (map_of ?m missingId))
          (missingAccountIds fes accounts)"
  have "(\<Sum>r\<leftarrow>balanceData c fes accounts bs inc. f (debitTotal r) (creditTotal r)) =
        sum_list (map (\<lambda>r. f (debitTotal r) (creditTotal r)) (sortRows c ?rows))"
    by (simp add: balanceData_def Let_def comp_def)
  also have "\<dots> = sum_list (map (\<lambda>r. f (debitTotal r) (creditTotal r)) ?rows)"
    by (rule sum_list_sortRows)
  also have "\<dots> = (\<Sum>k\<leftarrow>map acc_id accounts @ missingAccountIds fes accounts.
        f (debit (getTotals ?m k)) (credit (getTotals ?m k)))"
    using sum_accountRows [where f = f, OF assms, of ?m accounts]
          sum_unknownRows [where f = f, OF assms, of ?m]
    by simp
  finally show ?thesis .
qed

lemma distinct_rowIds:
  "distinct (map acc_id accounts) \<Longrightarrow>
   distinct (map acc_id accounts @ missingAccountIds fes accounts)"
  by (auto simp: distinct_missingAccountIds set_missingAccountIds)

lemma set_rowIds:
  "set (map acc_id accounts @ missingAccountIds fes accounts) = shownIds fes accounts"
  by (auto simp: set_missingAccountIds shownIds_def)

lemma sum_list_split4:
  "(\<Sum>k\<leftarrow>K. (a k + d k) - (b k + c k)) =
   (\<Sum>k\<leftarrow>K. a k - b k) + ((\<Sum>k\<leftarrow>K. d k) - (\<Sum>k\<leftarrow>K. (c k :: int)))"
  by (induction K) auto

text \<open>The difference of the two total columns is what the displayed opening balances sum to.\<close>

lemma trial_balance_difference:
  assumes "distinct (map acc_id accounts)"
  shows "(\<Sum>r\<leftarrow>balanceData c fes accounts bs inc. debitTotal r - creditTotal r) =
     (if inc then (\<Sum>b\<leftarrow>filter (\<lambda>b. ob_accountId b \<in> shownIds fes accounts) bs. ob_amount b)
      else 0)"
proof -
  let ?K = "map acc_id accounts @ missingAccountIds fes accounts"
  have d: "distinct ?K" using assms by (rule distinct_rowIds)
  have cover: "filter (\<lambda>e. debitAccountId e \<in> set ?K) fes = fes"
              "filter (\<lambda>e. creditAccountId e \<in> set ?K) fes = fes"
    by (auto simp: filter_id_conv set_missingAccountIds)
  have ent: "(\<Sum>k\<leftarrow>?K. entryDebit fes k) = (\<Sum>k\<leftarrow>?K. entryCredit fes k)"
    by (simp only: sum_entryDebit [OF d] sum_entryCredit [OF d] cover)
  have "(\<Sum>r\<leftarrow>balanceData c fes accounts bs inc. debitTotal r - creditTotal r) =
        (\<Sum>k\<leftarrow>?K. ((if inc then openingDebit bs k else 0) + entryDebit fes k)
                  - ((if inc then openingCredit bs k else 0) + entryCredit fes k))"
    using sum_balanceData [where f = "\<lambda>a b. a - b"]
    by (simp add: getTotals_accountTotals)
  also have "\<dots> = (\<Sum>k\<leftarrow>?K. (if inc then openingDebit bs k else 0)
                          - (if inc then openingCredit bs k else 0))"
    by (simp only: sum_list_split4 ent)
  also have "\<dots> = (if inc then (\<Sum>k\<leftarrow>?K. openingDebit bs k - openingCredit bs k) else 0)"
    by (cases inc) (simp_all add: comp_def)
  also have "\<dots> = (if inc then (\<Sum>b\<leftarrow>filter (\<lambda>b. ob_accountId b \<in> shownIds fes accounts) bs. ob_amount b)
      else 0)"
    by (simp only: sum_opening [OF d] set_rowIds)
  finally show ?thesis .
qed


lemma sum_balance_columns:
  "(\<Sum>r\<leftarrow>map setBalances rows. debitBalance r - creditBalance r) =
   (\<Sum>r\<leftarrow>rows. debitTotal r - creditTotal r)"
  by (simp add: comp_def setBalances_net)

lemma balanceData_setBalances:
  "\<exists>rows. balanceData c fes accounts bs inc = map setBalances rows"
  unfolding balanceData_def Let_def by blast

lemma totals_differences:
  "tt_debitTotal (totals rows) - tt_creditTotal (totals rows) =
     (\<Sum>r\<leftarrow>rows. debitTotal r - creditTotal r)"
  "tt_debitBalance (totals rows) - tt_creditBalance (totals rows) =
     (\<Sum>r\<leftarrow>rows. debitBalance r - creditBalance r)"
  by (simp_all add: totals_sums sum_list_subtractf)

lemma balance_columns_difference:
  "tt_debitBalance (totals (balanceData c fes accounts bs inc))
     - tt_creditBalance (totals (balanceData c fes accounts bs inc)) =
   (\<Sum>r\<leftarrow>balanceData c fes accounts bs inc. debitTotal r - creditTotal r)"
proof -
  obtain rows where r: "balanceData c fes accounts bs inc = map setBalances rows"
    using balanceData_setBalances by blast
  show ?thesis
    unfolding totals_differences r sum_balance_columns
    by (simp add: comp_def)
qed

text \<open>
  C1 (amended). For every entry list, every account list with distinct ids, every
  opening-balance set and every date filter, the total debit column of the trial
  balance minus its total credit column, which is the sum of the raw balances
  debitTotal - creditTotal of its rows, equals the sum of the signed opening amounts
  recorded under the ids that have a row (the ids of the accounts and of the filtered
  entries) when the include-opening flag is set, and 0 when it is not. So the two
  total columns, and the two balance columns, are equal exactly when those opening
  amounts sum to zero, and always when the flag is off.
\<close>

theorem trial_balance_closure:
  assumes "distinct (map acc_id accounts)"
  shows "let fes = filteredEntries es startDate endDate;
             rows = TrialBalance c es accounts balances startDate endDate includeOpeningBalance;
             opening = (if includeOpeningBalance
                        then (\<Sum>b\<leftarrow>filter (\<lambda>b. ob_accountId b \<in> shownIds fes accounts) balances.
                                ob_amount b)
                        else 0)
         in (\<Sum>r\<leftarrow>rows. debitTotal r - creditTotal r) = opening
          \<and> tt_debitTotal (totals rows) - tt_creditTotal (totals rows) = opening
          \<and> tt_debitBalance (totals rows) - tt_creditBalance (totals rows) = opening
          \<and> (isBalanced rows \<longleftrightarrow> opening = 0)"
proof -
  let ?fes = "filteredEntries es startDate endDate"
  let ?rows = "balanceData c ?fes accounts balances includeOpeningBalance"
  let ?opening = "if includeOpeningBalance
                  then (\<Sum>b\<leftarrow>filter (\<lambda>b. ob_accountId b \<in> shownIds ?fes accounts) balances.
                          ob_amount b)
                  else 0"
  have raw: "(\<Sum>r\<leftarrow>?rows. debitTotal r - creditTotal r) = ?opening"
    using assms by (rule trial_balance_difference)
  have tot: "tt_debitTotal (totals ?rows) - tt_creditTotal (totals ?rows) = ?opening"
    using raw by (simp only: totals_differences(1))
  have bal: "tt_debitBalance (totals ?rows) - tt_creditBalance (totals ?rows) = ?opening"
    using raw by (simp only: balance_columns_difference)
  have "isBalanced ?rows \<longleftrightarrow> ?opening = 0"
    using tot unfolding isBalanced_def by linarith
  with raw tot bal show ?thesis
    unfolding Let_def TrialBalance_def by blast
qed

text \<open>The definitions a concrete trial balance unfolds.\<close>

lemmas tb_eval = rowView_def TrialBalance_def filteredEntries_def mkEntry_def mkAccount_def
     balanceData_def accountTotals_def applyEntry_def applyOpening_def getTotals_def Let_def
     accountRow_def unknownRow_def missingAccountIds_def missingStep_def setAdd_def
     sortRows_def codeCompare_def setBalances_def isBalanced_def totals_def

text \<open>
  Scenario A with its rows, and scenario B under two date filters, one of which drops
  the only entry.
\<close>

theorem trial_balance_closure_witness:
  "map rowView (TrialBalance codeCompare entriesA accountsA [] [] [] True) =
     [(str ''cash'', 1000, 0, 1000, 0), (str ''sales'', 0, 1000, 0, 1000)]
   \<and> isBalanced (TrialBalance codeCompare entriesA accountsA [] [] [] True)
   \<and> isBalanced (TrialBalance codeCompare entriesB accountsB openingB
                   (str ''2025-04-01'') (str ''2026-03-31'') True)
   \<and> isBalanced (TrialBalance codeCompare entriesB accountsB openingB
                   (str ''2025-06-01'') (str ''2026-03-31'') True)"
proof -
  have rows: "map rowView (TrialBalance codeCompare entriesA accountsA [] [] [] True) =
     [(str ''cash'', 1000, 0, 1000, 0), (str ''sales'', 0, 1000, 0, 1000)]"
    by (simp add: tb_eval entriesA_def accountsA_def)
  have dA: "distinct (map acc_id accountsA)"
    by (simp add: accountsA_def mkAccount_def)
  have dB: "distinct (map acc_id accountsB)"
    by (simp add: accountsB_def mkAccount_def)
  have oB: "(\<Sum>b\<leftarrow>filter (\<lambda>b. ob_accountId b \<in> shownIds fes accountsB) openingB. ob_amount b) = 0"
    for fes
    by (simp add: shownIds_def accountsB_def mkAccount_def openingB_def)
  from trial_balance_closure [OF dA, of entriesA "[]" "[]" codeCompare "[]" True]
  have a: "isBalanced (TrialBalance codeCompare entriesA accountsA [] [] [] True)"
    by (simp add: Let_def)
  from trial_balance_closure [OF dB, of entriesB "str ''2025-04-01''" "str ''2026-03-31''"
         codeCompare openingB True]
  have b1: "isBalanced (TrialBalance codeCompare entriesB accountsB openingB
                   (str ''2025-04-01'') (str ''2026-03-31'') True)"
    unfolding Let_def oB by simp
  from trial_balance_closure [OF dB, of entriesB "str ''2025-06-01''" "str ''2026-03-31''"
         codeCompare openingB True]
  have b2: "isBalanced (TrialBalance codeCompare entriesB accountsB openingB
                   (str ''2025-06-01'') (str ''2026-03-31'') True)"
    unfolding Let_def oB by simp
  from rows a b1 b2 show ?thesis by blast
qed

text \<open>
  C1 as stated fails: with the flag set, an opening balance of +500 on Cash alone gives
  a debit column of 500 against a credit column of 0; and an opening set that sums to
  zero is out of balance when one of its ids has no row.
\<close>

theorem trial_balance_closure_counterexample:
  "\<not> isBalanced (TrialBalance codeCompare [] accountsD
        [\<lparr> ob_accountId = str ''cash'', ob_amount = 500 \<rparr>] [] [] True)
   \<and> \<not> isBalanced (TrialBalance codeCompare [] accountsD
        [\<lparr> ob_accountId = str ''cash'', ob_amount = 500 \<rparr>,
         \<lparr> ob_accountId = str ''ghost'', ob_amount = - 500 \<rparr>] [] [] True)"
  by (simp add: tb_eval accountsD_def)

lemma unknownRow_id [simp]: "row_accountId (unknownRow k t) = k"
  by (simp add: unknownRow_def)

lemma filter_accountRows:
  "k \<notin> set (map acc_id accounts) \<Longrightarrow>
   filter (\<lambda>r. row_accountId r = k) (map (accountRow m) (filter P accounts)) = []"
  by (induction accounts) (auto simp: accountRow_def Let_def)

lemma filter_unknownRows:
  "distinct ks \<Longrightarrow>
   filter (\<lambda>r. row_accountId r = k)
     (List.map_filter (\<lambda>missingId. map_option (unknownRow missingId) (map_of m missingId)) ks) =
   (if k \<in> set ks then (case map_of m k of None \<Rightarrow> [] | Some t \<Rightarrow> [unknownRow k t]) else [])"
proof (induction ks)
  case Nil
  then show ?case by simp
next
  case (Cons a ks)
  have other: "filter (\<lambda>r. row_accountId r = k)
     (List.map_filter (\<lambda>missingId. map_option (unknownRow missingId) (map_of m missingId)) ks) = []"
    if "k \<notin> set ks" using that Cons by simp
  show ?case
  proof (cases "a = k")
    case True
    with Cons.prems have "k \<notin> set ks" by simp
    from other [OF this] True show ?thesis
      by (cases "map_of m k") simp_all
  next
    case False
    with Cons show ?thesis
      by (cases "map_of m a") simp_all
  qed
qed

lemma filter_mset_single:
  assumes "mset xs = mset ys" and "filter P ys = [r]"
  shows "filter P xs = [r]"
proof -
  have "mset (filter P xs) = mset (filter P ys)"
    using assms(1) by (simp only: mset_filter)
  then have "mset (filter P xs) = {#r#}"
    by (simp only: assms(2) mset.simps)
  then show ?thesis by (simp only: mset_single_iff)
qed

lemma map_of_accountTotals_entry:
  assumes "k \<in> set (map debitAccountId fes) \<union> set (map creditAccountId fes)"
  shows "map_of (accountTotals fes bs inc) k =
     Some \<lparr> debit = (if inc then openingDebit bs k else 0) + entryDebit fes k,
            credit = (if inc then openingCredit bs k else 0) + entryCredit fes k \<rparr>"
proof -
  have "k \<in> dom (map_of (accountTotals fes bs inc))"
    using assms unfolding accountTotals_def dom_fold_applyEntry by blast
  then obtain t where t: "map_of (accountTotals fes bs inc) k = Some t" by blast
  then have "getTotals (accountTotals fes bs inc) k = t" by (simp add: getTotals_def)
  with t show ?thesis by (simp only: getTotals_accountTotals)
qed

lemma unknown_row:
  assumes "k \<in> set (map debitAccountId fes) \<union> set (map creditAccountId fes)"
      and "k \<notin> set (map acc_id accounts)"
  shows "filter (\<lambda>r. row_accountId r = k) (balanceData c fes accounts bs inc) =
     [setBalances (unknownRow k
        \<lparr> debit = (if inc then openingDebit bs k else 0) + entryDebit fes k,
          credit = (if inc then openingCredit bs k else 0) + entryCredit fes k \<rparr>)]"
proof -
  let ?m = "accountTotals fes bs inc"
  let ?t = "\<lparr> debit = (if inc then openingDebit bs k else 0) + entryDebit fes k,
          credit = (if inc then openingCredit bs k else 0) + entryCredit fes k \<rparr>"
  let ?rows = "map (accountRow ?m) (filter (\<lambda>account. map_of ?m (acc_id account) \<noteq> None) accounts)
      @ List.map_filter (\<lambda>missingId. map_option (unknownRow missingId) (map_of ?m missingId))
          (missingAccountIds fes accounts)"
  have km: "k \<in> set (missingAccountIds fes accounts)"
    using assms unfolding set_missingAccountIds by blast
  have "filter (\<lambda>r. row_accountId r = k) ?rows = [unknownRow k ?t]"
    using km filter_accountRows [OF assms(2)] map_of_accountTotals_entry [OF assms(1)]
    by (simp add: filter_unknownRows [OF distinct_missingAccountIds])
  then have "filter (\<lambda>r. row_accountId r = k) (sortRows c ?rows) = [unknownRow k ?t]"
    by (rule filter_mset_single [OF mset_sortRows])
  then have "filter ((\<lambda>r. row_accountId r = k) \<circ> setBalances) (sortRows c ?rows) = [unknownRow k ?t]"
    by (simp add: comp_def)
  then show ?thesis
    by (simp add: balanceData_def Let_def filter_map)
qed


text \<open>
  C7 (amended). When an entry that passes the date filter names, on its debit or its
  credit side, an id that no account has, the trial balance is still produced: the
  warning is raised, and the rows contain exactly one row for that id, the synthetic
  row (code ???, type asset) whose totals are the entry-sourced debit and credit
  totals of the id plus, when the include-opening flag is set, the opening balances
  recorded under that id. With distinct account ids the total debit and credit
  columns are equal when the flag is off or the opening amounts of the ids that have
  a row sum to zero.
\<close>

theorem unknown_account_row:
  assumes "entry \<in> set (filteredEntries es startDate endDate)"
      and "k = debitAccountId entry \<or> k = creditAccountId entry"
      and "k \<notin> set (map acc_id accounts)"
  shows "missingWarning es accounts startDate endDate
     \<and> k \<in> set (missingAccountIds (filteredEntries es startDate endDate) accounts)
     \<and> filter (\<lambda>r. row_accountId r = k)
          (TrialBalance c es accounts balances startDate endDate includeOpeningBalance) =
        [setBalances (unknownRow k
          \<lparr> debit = (if includeOpeningBalance then openingDebit balances k else 0)
                    + entryDebit (filteredEntries es startDate endDate) k,
            credit = (if includeOpeningBalance then openingCredit balances k else 0)
                    + entryCredit (filteredEntries es startDate endDate) k \<rparr>)]
     \<and> (distinct (map acc_id accounts) \<and>
         (includeOpeningBalance \<longrightarrow>
            (\<Sum>b\<leftarrow>filter (\<lambda>b. ob_accountId b
                           \<in> shownIds (filteredEntries es startDate endDate) accounts) balances.
               ob_amount b) = 0)
        \<longrightarrow> isBalanced (TrialBalance c es accounts balances startDate endDate
                          includeOpeningBalance))"
proof -
  let ?fes = "filteredEntries es startDate endDate"
  have k: "k \<in> set (map debitAccountId ?fes) \<union> set (map creditAccountId ?fes)"
    using assms(1,2) by auto
  then have km: "k \<in> set (missingAccountIds ?fes accounts)"
    using assms(3) unfolding set_missingAccountIds by blast
  then have w: "missingWarning es accounts startDate endDate"
    unfolding missingWarning_def by (cases "missingAccountIds ?fes accounts") auto
  have row: "filter (\<lambda>r. row_accountId r = k)
          (TrialBalance c es accounts balances startDate endDate includeOpeningBalance) =
        [setBalances (unknownRow k
          \<lparr> debit = (if includeOpeningBalance then openingDebit balances k else 0)
                    + entryDebit ?fes k,
            credit = (if includeOpeningBalance then openingCredit balances k else 0)
                    + entryCredit ?fes k \<rparr>)]"
    unfolding TrialBalance_def using k assms(3) by (rule unknown_row)
  have bal: "isBalanced (TrialBalance c es accounts balances startDate endDate
                          includeOpeningBalance)"
    if d: "distinct (map acc_id accounts)"
    and o: "includeOpeningBalance \<longrightarrow>
            (\<Sum>b\<leftarrow>filter (\<lambda>b. ob_accountId b \<in> shownIds ?fes accounts) balances. ob_amount b) = 0"
  proof -
    have e: "(if includeOpeningBalance
              then (\<Sum>b\<leftarrow>filter (\<lambda>b. ob_accountId b \<in> shownIds ?fes accounts) balances. ob_amount b)
              else 0) = 0"
      using o by simp
    have "tt_debitTotal (totals (balanceData c ?fes accounts balances includeOpeningBalance))
        - tt_creditTotal (totals (balanceData c ?fes accounts balances includeOpeningBalance)) = 0"
      by (simp only: totals_differences(1) trial_balance_difference [OF d] e)
    then show ?thesis
      unfolding isBalanced_def TrialBalance_def by simp
  qed
  from w km row bal show ?thesis by blast
qed

text \<open>
  Scenario D: the entry credits the id ghost, which no account has. Without opening
  balances the synthetic row carries the 100 of the entry and the columns agree.
\<close>

theorem unknown_account_row_witness:
  "missingWarning entriesD accountsD [] []
   \<and> map rowView (filter (\<lambda>r. row_accountId r = str ''ghost'')
                     (TrialBalance codeCompare entriesD accountsD [] [] [] True)) =
       [(str ''ghost'', 0, 100, 0, 100)]
   \<and> isBalanced (TrialBalance codeCompare entriesD accountsD [] [] [] True)"
proof -
  have 1: "mkEntry ''2025-05-01'' ''cash'' ''ghost'' 100 \<in> set (filteredEntries entriesD [] [])"
    by (simp add: filteredEntries_def entriesD_def)
  have 2: "str ''ghost'' = debitAccountId (mkEntry ''2025-05-01'' ''cash'' ''ghost'' 100)
         \<or> str ''ghost'' = creditAccountId (mkEntry ''2025-05-01'' ''cash'' ''ghost'' 100)"
    by (simp add: mkEntry_def)
  have 3: "str ''ghost'' \<notin> set (map acc_id accountsD)"
    by (simp add: accountsD_def mkAccount_def)
  have 4: "distinct (map acc_id accountsD)"
    by (simp add: accountsD_def mkAccount_def)
  have 5: "entryCredit (filteredEntries entriesD [] []) (str ''ghost'') = 100
         \<and> entryDebit (filteredEntries entriesD [] []) (str ''ghost'') = 0"
    by (simp add: filteredEntries_def entriesD_def mkEntry_def entryCredit_def entryDebit_def)
  from unknown_account_row [OF 1 2 3, of codeCompare "[]" True] 4 5
  show ?thesis
    by (simp add: openingDebit_def openingCredit_def rowView_def setBalances_def
          unknownRow_def Let_def)
qed

text \<open>
  C7 as stated fails: with an opening balance of 50 recorded under the unknown id and
  the flag set, the synthetic row carries 150 where the entries post 100, and the two
  total columns differ.
\<close>

theorem unknown_account_row_counterexample:
  "map rowView (filter (\<lambda>r. row_accountId r = str ''ghost'')
                  (TrialBalance codeCompare entriesD accountsD openingD [] [] True)) =
       [(str ''ghost'', 0, 150, 0, 150)]
   \<and> entryCredit (filteredEntries entriesD [] []) (str ''ghost'') = 100
   \<and> \<not> isBalanced (TrialBalance codeCompare entriesD accountsD openingD [] [] True)"
  by (simp add: tb_eval entriesD_def accountsD_def openingD_def entryCredit_def)

section \<open>Theorems: balance sheet\<close>

lemma getOr0_update:
  "getOr0 (AList.update k v m) k' = (if k' = k then v else getOr0 m k')"
  by (simp add: getOr0_def update_conv')

lemma getOr0_fsApplyEntry:
  "getOr0 (fsApplyEntry e m) k =
     getOr0 m k + (if debitAccountId e = k then amount e else 0)
                - (if creditAccountId e = k then amount e else 0)"
  by (simp add: fsApplyEntry_def Let_def getOr0_update)

lemma getOr0_fold_fsApplyEntry:
  "getOr0 (fold fsApplyEntry es m) k = getOr0 m k + entryDebit es k - entryCredit es k"
  by (induction es arbitrary: m)
     (simp_all add: getOr0_fsApplyEntry entryDebit_def entryCredit_def)

lemma getOr0_fsApplyOpening:
  "getOr0 (fsApplyOpening accounts b m) k =
     getOr0 m k + (if ob_accountId b = k \<and> isBalanceSheetType (getAccountType accounts k)
                   then ob_amount b else 0)"
  by (cases "acc_type (the (find (\<lambda>a. acc_id a = ob_accountId b) accounts))")
     (auto simp: fsApplyOpening_def getOr0_update isBalanceSheetType_def getAccountType_def
           split: option.splits)

lemma getOr0_fold_fsApplyOpening:
  "getOr0 (fold (fsApplyOpening accounts) obs m) k =
     getOr0 m k + (if isBalanceSheetType (getAccountType accounts k)
                   then (\<Sum>b\<leftarrow>filter (\<lambda>b. ob_accountId b = k) obs. ob_amount b) else 0)"
  by (induction obs arbitrary: m) (simp_all add: getOr0_fsApplyOpening)

lemma getOr0_fsBalances:
  "getOr0 (fsBalances fes accounts obs inc) k = rawBalance fes accounts obs inc k"
  by (simp add: fsBalances_def getOr0_fold_fsApplyEntry getOr0_fold_fsApplyOpening
        rawBalance_def fsOpening_def)
     (simp add: getOr0_def)

lemma fold_fsAccountStep:
  "fold (fsAccountStep (fsBalances fes accounts obs inc)) as acc =
     acc @ map (displayedAccount fes accounts obs inc)
             (filter (\<lambda>a. rawBalance fes accounts obs inc (acc_id a) \<noteq> 0) as)"
  by (induction as arbitrary: acc)
     (simp_all add: fsAccountStep_def Let_def getOr0_fsBalances displayedAccount_def
        displayBalance_def)

lemma mset_insertBalance: "mset (insertBalance c r xs) = add_mset r (mset xs)"
  by (induction xs) auto

lemma mset_sortBalances: "mset (sortBalances c rows) = mset rows"
  by (induction rows) (auto simp: sortBalances_def mset_insertBalance)

lemma mset_accountBalances:
  "mset (accountBalances c fes accounts obs inc) =
   mset (map (displayedAccount fes accounts obs inc)
           (filter (\<lambda>a. rawBalance fes accounts obs inc (acc_id a) \<noteq> 0) accounts))"
  by (simp add: accountBalances_def mset_sortBalances fold_fsAccountStep)

lemma sumBalance_sum_list: "sumBalance xs = sum_list (map balance xs)"
proof -
  have "fold (\<lambda>a s. s + balance a) xs s0 = s0 + sum_list (map balance xs)" for s0
    by (induction xs arbitrary: s0) simp_all
  then show ?thesis by (simp add: sumBalance_def)
qed

lemma sumBalance_mset: "mset xs = mset ys \<Longrightarrow> sumBalance xs = sumBalance ys"
proof -
  assume "mset xs = mset ys"
  then have "sum_mset (image_mset balance (mset xs)) = sum_mset (image_mset balance (mset ys))"
    by simp
  then show ?thesis by (simp add: sumBalance_sum_list sum_mset_sum_list flip: mset_map)
qed

lemma sumBalance_filter_accountBalances:
  "sumBalance (filter P (accountBalances c fes accounts obs inc)) =
   sumBalance (filter P (map (displayedAccount fes accounts obs inc)
           (filter (\<lambda>a. rawBalance fes accounts obs inc (acc_id a) \<noteq> 0) accounts)))"
  by (rule sumBalance_mset) (simp only: mset_filter mset_accountBalances)

text \<open>Each displayed account adds its raw balance to exactly one of the five sums.\<close>

lemma five_sums:
  "sumBalance (filter (\<lambda>a. ab_type a = Asset) (map (displayedAccount fes accounts obs inc) as))
   - sumBalance (filter (\<lambda>a. ab_type a = Liability) (map (displayedAccount fes accounts obs inc) as))
   - sumBalance (filter (\<lambda>a. ab_type a = Equity) (map (displayedAccount fes accounts obs inc) as))
   - sumBalance (filter (\<lambda>a. ab_type a = Revenue) (map (displayedAccount fes accounts obs inc) as))
   + sumBalance (filter (\<lambda>a. ab_type a = Expense) (map (displayedAccount fes accounts obs inc) as))
   = (\<Sum>a\<leftarrow>as. rawBalance fes accounts obs inc (acc_id a))"
proof (induction as)
  case Nil
  then show ?case by (simp add: sumBalance_sum_list)
next
  case (Cons a as)
  then show ?case
    by (cases "acc_type a")
       (simp_all add: sumBalance_sum_list displayedAccount_def displayBalance_def)
qed

lemma sum_nonzero_filter:
  "(\<Sum>a\<leftarrow>filter (\<lambda>a. f a \<noteq> 0) as. f a) = (\<Sum>a\<leftarrow>as. (f a :: int))"
  by (induction as) simp_all

lemma balance_sheet_difference:
  "bs_totalAssets (bsData (accountBalances c fes accounts obs inc))
   - (bs_totalLiabilities (bsData (accountBalances c fes accounts obs inc))
      + bs_totalEquity (bsData (accountBalances c fes accounts obs inc)))
   = (\<Sum>a\<leftarrow>accounts. rawBalance fes accounts obs inc (acc_id a))"
proof -
  let ?nz = "filter (\<lambda>a. rawBalance fes accounts obs inc (acc_id a) \<noteq> 0) accounts"
  have "bs_totalAssets (bsData (accountBalances c fes accounts obs inc))
   - (bs_totalLiabilities (bsData (accountBalances c fes accounts obs inc))
      + bs_totalEquity (bsData (accountBalances c fes accounts obs inc)))
   = (\<Sum>a\<leftarrow>?nz. rawBalance fes accounts obs inc (acc_id a))"
    using five_sums [of fes accounts obs inc ?nz]
    by (simp add: bsData_def plData_def Let_def sumBalance_filter_accountBalances)
  then show ?thesis
    by (simp only: sum_nonzero_filter [where f = "\<lambda>a. rawBalance fes accounts obs inc (acc_id a)"])
qed


lemma sum_list_indicator_pred:
  "distinct K \<Longrightarrow>
   (\<Sum>k\<leftarrow>K. if x = k \<and> P k then a else 0) = (if x \<in> set K \<and> P x then a else (0::int))"
  by (induction K) auto

lemma sum_fsOpening:
  assumes "distinct K"
      and "\<And>k. isBalanceSheetType (getAccountType accounts k) \<Longrightarrow> k \<in> set K"
  shows "(\<Sum>k\<leftarrow>K. if isBalanceSheetType (getAccountType accounts k)
                 then (\<Sum>b\<leftarrow>filter (\<lambda>b. ob_accountId b = k) obs. ob_amount b) else 0) =
         (\<Sum>b\<leftarrow>filter (\<lambda>b. isBalanceSheetType (getAccountType accounts (ob_accountId b))) obs.
            ob_amount b)"
proof (induction obs)
  case Nil
  show ?case by (induction K) simp_all
next
  case (Cons b obs)
  have "(\<Sum>k\<leftarrow>K. if isBalanceSheetType (getAccountType accounts k)
                 then (\<Sum>b\<leftarrow>filter (\<lambda>b. ob_accountId b = k) (b # obs). ob_amount b) else 0) =
        (\<Sum>k\<leftarrow>K. if ob_accountId b = k \<and> isBalanceSheetType (getAccountType accounts k)
                 then ob_amount b else 0)
        + (\<Sum>k\<leftarrow>K. if isBalanceSheetType (getAccountType accounts k)
                 then (\<Sum>b\<leftarrow>filter (\<lambda>b. ob_accountId b = k) obs. ob_amount b) else 0)"
    by (simp flip: sum_list_addf) (rule arg_cong [where f = sum_list], auto)
  with Cons assms(2) [of "ob_accountId b"] show ?case
    by (auto simp: sum_list_indicator_pred [OF assms(1)])
qed

lemma isBalanceSheetType_known:
  "isBalanceSheetType (getAccountType accounts k) \<Longrightarrow> k \<in> set (map acc_id accounts)"
  by (auto simp: isBalanceSheetType_def getAccountType_def find_Some_iff)

lemma sum_list_split3:
  "(\<Sum>k\<leftarrow>K. a k + d k - c k) =
   (\<Sum>k\<leftarrow>K. a k) + ((\<Sum>k\<leftarrow>K. d k) - (\<Sum>k\<leftarrow>K. (c k :: int)))"
  by (induction K) auto

lemma fs_closure:
  assumes d: "distinct (map acc_id accounts)"
      and known: "set (map debitAccountId fes) \<union> set (map creditAccountId fes)
                    \<subseteq> set (map acc_id accounts)"
      and opn: "inc \<longrightarrow>
         (\<Sum>b\<leftarrow>filter (\<lambda>b. isBalanceSheetType (getAccountType accounts (ob_accountId b))) obs.
            ob_amount b) = 0"
  shows "(\<Sum>a\<leftarrow>accounts. rawBalance fes accounts obs inc (acc_id a)) = 0"
proof -
  let ?K = "map acc_id accounts"
  have cover: "filter (\<lambda>e. debitAccountId e \<in> set ?K) fes = fes"
              "filter (\<lambda>e. creditAccountId e \<in> set ?K) fes = fes"
    using known by (auto simp: filter_id_conv)
  have ent: "(\<Sum>k\<leftarrow>?K. entryDebit fes k) = (\<Sum>k\<leftarrow>?K. entryCredit fes k)"
    by (simp only: sum_entryDebit [OF d] sum_entryCredit [OF d] cover)
  have op: "(\<Sum>k\<leftarrow>?K. fsOpening accounts obs inc k) = 0"
  proof (cases inc)
    case True
    then have "(\<Sum>k\<leftarrow>?K. fsOpening accounts obs inc k) =
       (\<Sum>k\<leftarrow>?K. if isBalanceSheetType (getAccountType accounts k)
                 then (\<Sum>b\<leftarrow>filter (\<lambda>b. ob_accountId b = k) obs. ob_amount b) else 0)"
      by (simp add: fsOpening_def)
    also have "\<dots> = (\<Sum>b\<leftarrow>filter (\<lambda>b. isBalanceSheetType (getAccountType accounts (ob_accountId b))) obs.
            ob_amount b)"
      using d isBalanceSheetType_known by (rule sum_fsOpening)
    finally show ?thesis using opn True by simp
  next
    case False
    then show ?thesis by (simp add: fsOpening_def comp_def)
  qed
  have "(\<Sum>a\<leftarrow>accounts. rawBalance fes accounts obs inc (acc_id a)) =
        (\<Sum>k\<leftarrow>?K. fsOpening accounts obs inc k + entryDebit fes k - entryCredit fes k)"
    by (simp add: rawBalance_def comp_def)
  also have "\<dots> = (\<Sum>k\<leftarrow>?K. fsOpening accounts obs inc k)
                 + ((\<Sum>k\<leftarrow>?K. entryDebit fes k) - (\<Sum>k\<leftarrow>?K. entryCredit fes k))"
    by (rule sum_list_split3)
  finally show ?thesis using op ent by simp
qed


lemma filter_displayedAccount:
  "filter (\<lambda>a. ab_type a = t) (map (displayedAccount fes accounts obs inc) as) =
   map (displayedAccount fes accounts obs inc) (filter (\<lambda>a. acc_type a = t) as)"
  by (induction as) (simp_all add: displayedAccount_def)

lemma mset_filter_accountBalances:
  "mset (filter (\<lambda>a. ab_type a = t) (accountBalances c fes accounts obs inc)) =
   mset (map (displayedAccount fes accounts obs inc)
          (filter (\<lambda>a. acc_type a = t \<and> rawBalance fes accounts obs inc (acc_id a) \<noteq> 0)
             accounts))"
proof -
  let ?nz = "filter (\<lambda>a. rawBalance fes accounts obs inc (acc_id a) \<noteq> 0) accounts"
  have "mset (filter (\<lambda>a. ab_type a = t) (accountBalances c fes accounts obs inc)) =
        filter_mset (\<lambda>a. ab_type a = t) (mset (map (displayedAccount fes accounts obs inc) ?nz))"
    by (simp only: mset_filter mset_accountBalances)
  also have "\<dots> = mset (filter (\<lambda>a. ab_type a = t) (map (displayedAccount fes accounts obs inc) ?nz))"
    by (simp only: mset_filter)
  also have "\<dots> = mset (map (displayedAccount fes accounts obs inc) (filter (\<lambda>a. acc_type a = t) ?nz))"
    by (simp only: filter_displayedAccount)
  also have "filter (\<lambda>a. acc_type a = t) ?nz =
      filter (\<lambda>a. acc_type a = t \<and> rawBalance fes accounts obs inc (acc_id a) \<noteq> 0) accounts"
    by (simp add: conj_commute)
  finally show ?thesis .
qed

text \<open>
  C4 (amended). The balance sheet lists, with their display balances, exactly the
  asset, liability and equity accounts of the chart whose raw balance is not zero; its
  equity subtotal is the sum of the equity display balances plus the net income, which
  is total revenue minus total expense. Total assets minus (total liabilities plus
  the equity subtotal) is the sum of the raw balances of the accounts of the chart, so
  the sheet balances when that sum is zero; it is zero when the account ids are
  distinct, every filtered entry names accounts of the chart on both sides, and
  either the flag is off or the opening balances of the asset, liability and equity
  accounts of the chart sum to zero.
\<close>

theorem balance_sheet_balanced:
  "let fes = filteredEntries es startDate endDate;
       pl = fst (FinancialStatements c es accounts obs startDate endDate inc);
       bs = snd (FinancialStatements c es accounts obs startDate endDate inc);
       raw = rawBalance fes accounts obs inc;
       shown = (\<lambda>t. map (displayedAccount fes accounts obs inc)
                        (filter (\<lambda>a. acc_type a = t \<and> raw (acc_id a) \<noteq> 0) accounts))
   in mset (bs_assets bs) = mset (shown Asset)
    \<and> mset (bs_liabilities bs) = mset (shown Liability)
    \<and> mset (bs_equity bs) = mset (shown Equity)
    \<and> bs_totalAssets bs = sum_list (map balance (bs_assets bs))
    \<and> bs_totalLiabilities bs = sum_list (map balance (bs_liabilities bs))
    \<and> pl_netIncome pl = sum_list (map balance (pl_revenue pl))
                         - sum_list (map balance (pl_expense pl))
    \<and> bs_totalEquity bs = sum_list (map balance (bs_equity bs)) + pl_netIncome pl
    \<and> bs_totalAssets bs - (bs_totalLiabilities bs + bs_totalEquity bs) =
        (\<Sum>a\<leftarrow>accounts. raw (acc_id a))
    \<and> ((\<Sum>a\<leftarrow>accounts. raw (acc_id a)) = 0 \<longrightarrow>
         bs_totalAssets bs = bs_totalLiabilities bs + bs_totalEquity bs)
    \<and> (distinct (map acc_id accounts)
        \<and> set (map debitAccountId fes) \<union> set (map creditAccountId fes)
             \<subseteq> set (map acc_id accounts)
        \<and> (inc \<longrightarrow> (\<Sum>b\<leftarrow>filter (\<lambda>b. isBalanceSheetType
                                       (getAccountType accounts (ob_accountId b))) obs.
                       ob_amount b) = 0)
        \<longrightarrow> bs_totalAssets bs = bs_totalLiabilities bs + bs_totalEquity bs)"
proof -
  let ?fes = "filteredEntries es startDate endDate"
  let ?abs = "accountBalances c ?fes accounts obs inc"
  let ?raw = "rawBalance ?fes accounts obs inc"
  have fs: "FinancialStatements c es accounts obs startDate endDate inc = (plData ?abs, bsData ?abs)"
    by (simp add: FinancialStatements_def Let_def)
  have lists: "mset (bs_assets (bsData ?abs)) = mset (map (displayedAccount ?fes accounts obs inc)
                  (filter (\<lambda>a. acc_type a = Asset \<and> ?raw (acc_id a) \<noteq> 0) accounts))"
       "mset (bs_liabilities (bsData ?abs)) = mset (map (displayedAccount ?fes accounts obs inc)
                  (filter (\<lambda>a. acc_type a = Liability \<and> ?raw (acc_id a) \<noteq> 0) accounts))"
       "mset (bs_equity (bsData ?abs)) = mset (map (displayedAccount ?fes accounts obs inc)
                  (filter (\<lambda>a. acc_type a = Equity \<and> ?raw (acc_id a) \<noteq> 0) accounts))"
    unfolding bsData_def Let_def BSData.simps by (rule mset_filter_accountBalances)+
  have sums: "bs_totalAssets (bsData ?abs) = sum_list (map balance (bs_assets (bsData ?abs)))"
       "bs_totalLiabilities (bsData ?abs) = sum_list (map balance (bs_liabilities (bsData ?abs)))"
       "pl_netIncome (plData ?abs) = sum_list (map balance (pl_revenue (plData ?abs)))
                         - sum_list (map balance (pl_expense (plData ?abs)))"
       "bs_totalEquity (bsData ?abs) = sum_list (map balance (bs_equity (bsData ?abs)))
                         + pl_netIncome (plData ?abs)"
    by (simp_all add: bsData_def plData_def Let_def sumBalance_sum_list)
  have diff: "bs_totalAssets (bsData ?abs)
      - (bs_totalLiabilities (bsData ?abs) + bs_totalEquity (bsData ?abs)) =
        (\<Sum>a\<leftarrow>accounts. ?raw (acc_id a))"
    by (rule balance_sheet_difference)
  have bal: "bs_totalAssets (bsData ?abs) = bs_totalLiabilities (bsData ?abs) + bs_totalEquity (bsData ?abs)"
    if "(\<Sum>a\<leftarrow>accounts. ?raw (acc_id a)) = 0"
    using diff that by linarith
  have bal2: "bs_totalAssets (bsData ?abs) = bs_totalLiabilities (bsData ?abs) + bs_totalEquity (bsData ?abs)"
    if "distinct (map acc_id accounts)"
       "set (map debitAccountId ?fes) \<union> set (map creditAccountId ?fes) \<subseteq> set (map acc_id accounts)"
       "inc \<longrightarrow> (\<Sum>b\<leftarrow>filter (\<lambda>b. isBalanceSheetType
                                       (getAccountType accounts (ob_accountId b))) obs.
                       ob_amount b) = 0"
    using bal fs_closure [OF that] by blast
  from lists sums diff bal bal2 show ?thesis
    unfolding Let_def fs fst_conv snd_conv by blast
qed



text \<open>The definitions a concrete pair of statements unfolds.\<close>

lemmas fs_eval = FinancialStatements_def filteredEntries_def mkEntry_def mkAccount_def
  accountBalances_def fsBalances_def fsApplyOpening_def fsApplyEntry_def getOr0_def
  fsAccountStep_def sortBalances_def codeCompare_def plData_def bsData_def sumBalance_def
  Let_def abView_def

text \<open>
  Scenario B: Cash shows 300, the net income is -200, assets are 300 and the equity
  subtotal is 500 + (-200) = 300.
\<close>

theorem balance_sheet_balanced_witness:
  "map abView (bs_assets (snd (FinancialStatements codeCompare entriesB accountsB openingB
                                 [] [] True))) = [(str ''cash'', 300)]
   \<and> pl_netIncome (fst (FinancialStatements codeCompare entriesB accountsB openingB
                          [] [] True)) = - 200
   \<and> bs_totalAssets (snd (FinancialStatements codeCompare entriesB accountsB openingB
                            [] [] True)) = 300
   \<and> bs_totalEquity (snd (FinancialStatements codeCompare entriesB accountsB openingB
                            [] [] True)) = 300
   \<and> bs_totalAssets (snd (FinancialStatements codeCompare entriesB accountsB openingB
                            [] [] True)) =
       bs_totalLiabilities (snd (FinancialStatements codeCompare entriesB accountsB openingB
                                   [] [] True))
       + bs_totalEquity (snd (FinancialStatements codeCompare entriesB accountsB openingB
                                [] [] True))"
proof -
  have v: "map abView (bs_assets (snd (FinancialStatements codeCompare entriesB accountsB openingB
                                 [] [] True))) = [(str ''cash'', 300)]
   \<and> pl_netIncome (fst (FinancialStatements codeCompare entriesB accountsB openingB
                          [] [] True)) = - 200
   \<and> bs_totalAssets (snd (FinancialStatements codeCompare entriesB accountsB openingB
                            [] [] True)) = 300
   \<and> bs_totalEquity (snd (FinancialStatements codeCompare entriesB accountsB openingB
                            [] [] True)) = 300"
    by (simp add: fs_eval entriesB_def accountsB_def openingB_def)
  have d: "distinct (map acc_id accountsB)"
    by (simp add: accountsB_def mkAccount_def)
  have k: "set (map debitAccountId (filteredEntries entriesB [] []))
           \<union> set (map creditAccountId (filteredEntries entriesB [] []))
           \<subseteq> set (map acc_id accountsB)"
    by (simp add: filteredEntries_def entriesB_def mkEntry_def accountsB_def mkAccount_def)
  have o: "(\<Sum>b\<leftarrow>filter (\<lambda>b. isBalanceSheetType (getAccountType accountsB (ob_accountId b)))
               openingB. ob_amount b) = 0"
    by (simp add: openingB_def accountsB_def mkAccount_def isBalanceSheetType_def
          getAccountType_def)
  from balance_sheet_balanced [of entriesB "[]" "[]" codeCompare accountsB openingB True]
       d k o
  have "bs_totalAssets (snd (FinancialStatements codeCompare entriesB accountsB openingB
                            [] [] True)) =
       bs_totalLiabilities (snd (FinancialStatements codeCompare entriesB accountsB openingB
                                   [] [] True))
       + bs_totalEquity (snd (FinancialStatements codeCompare entriesB accountsB openingB
                                [] [] True))"
    unfolding Let_def by blast
  with v show ?thesis by blast
qed

text \<open>
  C4 as stated fails: every entry posts one amount to a debit and a credit side and
  the opening balances sum to zero, but one entry credits an id outside the chart;
  the sheet shows assets of 400 against liabilities of 0 and an equity subtotal of 300.
\<close>

theorem balance_sheet_balanced_counterexample:
  "sum_list (map ob_amount openingB) = 0
   \<and> bs_totalAssets (snd (FinancialStatements codeCompare entriesGhost accountsB openingB
                            [] [] True)) = 400
   \<and> bs_totalLiabilities (snd (FinancialStatements codeCompare entriesGhost accountsB
                                 openingB [] [] True)) = 0
   \<and> bs_totalEquity (snd (FinancialStatements codeCompare entriesGhost accountsB openingB
                            [] [] True)) = 300"
  by (simp add: fs_eval entriesGhost_def accountsB_def openingB_def)

section \<open>Theorems: year-end closing\<close>

lemma fold_closingStep:
  "fold (closingStep accounts) es (m, tr, te) =
     (fold (postBalances accounts) es m, tr + revenueOf accounts es, te + expenseOf accounts es)"
  by (induction es arbitrary: m tr te)
     (simp_all add: closingStep_def Let_def revenueOf_def expenseOf_def)

lemma closingFold_eq:
  "closingFold es accounts obs fs fe =
     (fold (postBalances accounts) (periodEntries es fs fe) (setOpening obs),
      revenueOf accounts (periodEntries es fs fe),
      expenseOf accounts (periodEntries es fs fe))"
  by (simp add: closingFold_def fold_closingStep)

lemma periodNetProfit_eq:
  "periodNetProfit es accounts obs fs fe =
     revenueOf accounts (periodEntries es fs fe) - expenseOf accounts (periodEntries es fs fe)"
  by (simp add: periodNetProfit_def closingFold_eq)

lemma getOr0_closingTransfer:
  "getOr0 (snd (closingTransfer re np fe m)) k =
     getOr0 m k - (case re of None \<Rightarrow> 0 | Some a \<Rightarrow> if k = acc_id a then np else 0)"
  by (cases re) (simp_all add: closingTransfer_def getOr0_update)

lemma closingTransfer_None: "closingTransfer None np fe m = (None, m)"
  by (simp add: closingTransfer_def)

lemma fold_closingBalanceStep:
  "fold (closingBalanceStep m) as out =
     out @ map (\<lambda>a. \<lparr> cb_accountId = acc_id a, cb_accountName = acc_name a,
                       cb_accountType = acc_type a, cb_balance = getOr0 m (acc_id a) \<rparr>)
             (filter (\<lambda>a. isBalanceSheetAccount (acc_type a) \<and> getOr0 m (acc_id a) \<noteq> 0) as)"
  by (induction as arbitrary: out) (simp_all add: closingBalanceStep_def Let_def)

lemma fold_carryForwardStep:
  "fold (carryForwardStep m) as out =
     out @ map (\<lambda>a. \<lparr> ob_accountId = acc_id a, ob_amount = getOr0 m (acc_id a) \<rparr>)
             (filter (\<lambda>a. isBalanceSheetAccount (acc_type a) \<and> getOr0 m (acc_id a) \<noteq> 0) as)"
  by (induction as arbitrary: out) (simp_all add: carryForwardStep_def Let_def)

lemma carryForwardBalances_eq:
  "carryForwardBalances (calculateYearEndClosing es accounts obs fs fe) =
     map (\<lambda>a. \<lparr> ob_accountId = acc_id a,
                 ob_amount = getOr0 (closedBalances es accounts obs fs fe) (acc_id a) \<rparr>)
       (filter (\<lambda>a. isBalanceSheetAccount (acc_type a)
                   \<and> getOr0 (closedBalances es accounts obs fs fe) (acc_id a) \<noteq> 0) accounts)"
  by (simp add: calculateYearEndClosing_def Let_def fold_carryForwardStep closedBalances_def)

lemma closingBalances_eq:
  "closingBalances (calculateYearEndClosing es accounts obs fs fe) =
     map (\<lambda>a. \<lparr> cb_accountId = acc_id a, cb_accountName = acc_name a,
                 cb_accountType = acc_type a,
                 cb_balance = getOr0 (closedBalances es accounts obs fs fe) (acc_id a) \<rparr>)
       (filter (\<lambda>a. isBalanceSheetAccount (acc_type a)
                   \<and> getOr0 (closedBalances es accounts obs fs fe) (acc_id a) \<noteq> 0) accounts)"
  by (simp add: calculateYearEndClosing_def Let_def fold_closingBalanceStep closedBalances_def)

lemma findRetainedEarningsAccount_None:
  "findRetainedEarningsAccount accounts = None \<longleftrightarrow>
     (\<forall>a \<in> set accounts. acc_name a \<notin> {name_RetainedEarningsCarried, name_RetainedEarnings,
                                          name_ProfitCarried})"
  by (auto simp: findRetainedEarningsAccount_def find_None_iff)

lemma findRetainedEarningsAccount_Some:
  "findRetainedEarningsAccount accounts = Some re \<Longrightarrow>
     re \<in> set accounts
     \<and> acc_name re \<in> {name_RetainedEarningsCarried, name_RetainedEarnings, name_ProfitCarried}"
  by (auto simp: findRetainedEarningsAccount_def find_Some_iff)

text \<open>
  C5. calculateYearEndClosing works on the entries dated inside the fiscal year. Its
  net profit is revenue minus expense, where a credit to a revenue account adds to
  revenue and a debit to one subtracts, and a debit to an expense account adds to
  expense and a credit to one subtracts. The retained-earnings account is the first
  account whose name is one of the three accepted labels; when there is one, its
  balance after closing is its balance after the entries of the period minus the net
  profit and no other balance changes, and that balance is what is carried forward;
  when there is none, the closing still returns its result, with no closing entry and
  every balance as the entries of the period left it.
\<close>

theorem year_end_closing_profit:
  "let r = calculateYearEndClosing es accounts obs fs fe;
       pes = periodEntries es fs fe;
       before = getOr0 (periodBalances es accounts obs fs fe);
       after = getOr0 (closedBalances es accounts obs fs fe)
   in netProfit r = revenueOf accounts pes - expenseOf accounts pes
    \<and> ((findRetainedEarningsAccount accounts = None) =
         (\<forall>a \<in> set accounts. acc_name a \<notin> {name_RetainedEarningsCarried,
                                              name_RetainedEarnings, name_ProfitCarried}))
    \<and> (\<forall>re. findRetainedEarningsAccount accounts = Some re \<longrightarrow>
          re \<in> set accounts
          \<and> acc_name re \<in> {name_RetainedEarningsCarried, name_RetainedEarnings,
                              name_ProfitCarried}
          \<and> after (acc_id re) = before (acc_id re) - netProfit r
          \<and> (\<forall>k. k \<noteq> acc_id re \<longrightarrow> after k = before k))
    \<and> (findRetainedEarningsAccount accounts = None \<longrightarrow>
          closingEntry r = None \<and> (\<forall>k. after k = before k))
    \<and> carryForwardBalances r =
        map (\<lambda>a. \<lparr> ob_accountId = acc_id a, ob_amount = after (acc_id a) \<rparr>)
          (filter (\<lambda>a. isBalanceSheetAccount (acc_type a) \<and> after (acc_id a) \<noteq> 0) accounts)"
proof -
  let ?r = "calculateYearEndClosing es accounts obs fs fe"
  let ?before = "getOr0 (periodBalances es accounts obs fs fe)"
  let ?after = "getOr0 (closedBalances es accounts obs fs fe)"
  have np: "netProfit ?r = revenueOf accounts (periodEntries es fs fe)
                           - expenseOf accounts (periodEntries es fs fe)"
    by (simp add: calculateYearEndClosing_def Let_def periodNetProfit_eq)
  have np': "netProfit ?r = periodNetProfit es accounts obs fs fe"
    by (simp add: calculateYearEndClosing_def Let_def)
  have some: "re \<in> set accounts
          \<and> acc_name re \<in> {name_RetainedEarningsCarried, name_RetainedEarnings,
                              name_ProfitCarried}
          \<and> ?after (acc_id re) = ?before (acc_id re) - netProfit ?r
          \<and> (\<forall>k. k \<noteq> acc_id re \<longrightarrow> ?after k = ?before k)"
    if "findRetainedEarningsAccount accounts = Some re" for re
    using that findRetainedEarningsAccount_Some [OF that]
    by (simp add: closedBalances_def getOr0_closingTransfer np')
  have none: "closingEntry ?r = None \<and> (\<forall>k. ?after k = ?before k)"
    if "findRetainedEarningsAccount accounts = None"
    using that
    by (simp add: calculateYearEndClosing_def Let_def closedBalances_def closingTransfer_None)
  show ?thesis
    unfolding Let_def
  proof (intro conjI allI impI)
    show "netProfit ?r = revenueOf accounts (periodEntries es fs fe)
                           - expenseOf accounts (periodEntries es fs fe)"
      by (rule np)
    show "(findRetainedEarningsAccount accounts = None) =
         (\<forall>a \<in> set accounts. acc_name a \<notin> {name_RetainedEarningsCarried,
                                              name_RetainedEarnings, name_ProfitCarried})"
      by (rule findRetainedEarningsAccount_None)
    show "carryForwardBalances ?r =
        map (\<lambda>a. \<lparr> ob_accountId = acc_id a, ob_amount = ?after (acc_id a) \<rparr>)
          (filter (\<lambda>a. isBalanceSheetAccount (acc_type a) \<and> ?after (acc_id a) \<noteq> 0) accounts)"
      by (rule carryForwardBalances_eq)
  qed (use some none in blast)+
qed

text \<open>The definitions a concrete closing unfolds.\<close>

lemmas yec_eval = calculateYearEndClosing_def periodNetProfit_def periodBalances_def
  closedBalances_def closingFold_def closingStep_def postBalances_def setOpening_def
  periodEntries_def str_le_def closingTransfer_def findRetainedEarningsAccount_def
  closingBalanceStep_def carryForwardStep_def getAccountType_def getOr0_def
  isBalanceSheetAccount_def Let_def mkEntry_def mkAccount_def obView_def cbView_def
  name_RetainedEarningsCarried_def name_RetainedEarnings_def name_ProfitCarried_def
  name_Cash_def name_Capital_def

text \<open>
  A year with a sale of 1000 and an expense of 200 (a third entry lies after the year
  end): the profit of 800 lowers the retained-earnings balance from 0 to -800; on the
  chart without that account the other balances are carried forward as they are.
\<close>

theorem year_end_closing_profit_witness:
  "netProfit (calculateYearEndClosing entriesY accountsY openingB
                (str ''2025-04-01'') (str ''2026-03-31'')) = 800
   \<and> getOr0 (closedBalances entriesY accountsY openingB
               (str ''2025-04-01'') (str ''2026-03-31'')) (str ''re'') = - 800
   \<and> map obView (carryForwardBalances (calculateYearEndClosing entriesY accountsY openingB
                (str ''2025-04-01'') (str ''2026-03-31''))) =
       [(str ''cash'', 1300), (str ''capital'', - 500), (str ''re'', - 800)]
   \<and> closingEntry (calculateYearEndClosing entriesY accountsYnoRE openingB
                (str ''2025-04-01'') (str ''2026-03-31'')) = None
   \<and> map obView (carryForwardBalances (calculateYearEndClosing entriesY accountsYnoRE openingB
                (str ''2025-04-01'') (str ''2026-03-31''))) =
       [(str ''cash'', 1300), (str ''capital'', - 500)]"
proof -
  have pe: "periodEntries entriesY (str ''2025-04-01'') (str ''2026-03-31'') =
              [mkEntry ''2025-05-01'' ''cash'' ''sales'' 1000,
               mkEntry ''2025-06-01'' ''rent'' ''cash'' 200]"
    by (simp add: periodEntries_def entriesY_def mkEntry_def str_le_def)
  have re: "revenueOf accountsY (periodEntries entriesY (str ''2025-04-01'') (str ''2026-03-31''))
              = 1000
          \<and> expenseOf accountsY (periodEntries entriesY (str ''2025-04-01'') (str ''2026-03-31''))
              = 200"
    unfolding pe
    by (simp add: revenueOf_def expenseOf_def accountsY_def mkAccount_def mkEntry_def
          getAccountType_def)
  have f: "findRetainedEarningsAccount accountsY =
             Some (mkAccount ''re'' ''302'' name_RetainedEarningsCarried Equity)"
    by (simp add: findRetainedEarningsAccount_def accountsY_def mkAccount_def name_Cash_def
          name_Capital_def name_RetainedEarningsCarried_def name_RetainedEarnings_def
          name_ProfitCarried_def)
  have b: "getOr0 (periodBalances entriesY accountsY openingB
               (str ''2025-04-01'') (str ''2026-03-31'')) (str ''re'') = 0"
    by (simp add: yec_eval entriesY_def accountsY_def openingB_def)
  have n: "findRetainedEarningsAccount accountsYnoRE = None"
    by (simp add: findRetainedEarningsAccount_def accountsYnoRE_def mkAccount_def name_Cash_def
          name_Capital_def name_RetainedEarningsCarried_def name_RetainedEarnings_def
          name_ProfitCarried_def)
  have cf: "map obView (carryForwardBalances (calculateYearEndClosing entriesY accountsY openingB
                (str ''2025-04-01'') (str ''2026-03-31''))) =
       [(str ''cash'', 1300), (str ''capital'', - 500), (str ''re'', - 800)]
   \<and> map obView (carryForwardBalances (calculateYearEndClosing entriesY accountsYnoRE openingB
                (str ''2025-04-01'') (str ''2026-03-31''))) =
       [(str ''cash'', 1300), (str ''capital'', - 500)]"
    by (simp add: yec_eval entriesY_def accountsY_def accountsYnoRE_def openingB_def)
  note t1 = year_end_closing_profit [of entriesY accountsY openingB "str ''2025-04-01''"
              "str ''2026-03-31''", unfolded Let_def]
  note t2 = year_end_closing_profit [of entriesY accountsYnoRE openingB "str ''2025-04-01''"
              "str ''2026-03-31''", unfolded Let_def]
  have np: "netProfit (calculateYearEndClosing entriesY accountsY openingB
                (str ''2025-04-01'') (str ''2026-03-31'')) = 800"
    using t1 re by simp
  have after: "getOr0 (closedBalances entriesY accountsY openingB
               (str ''2025-04-01'') (str ''2026-03-31'')) (str ''re'') = - 800"
    using t1 f b np by (simp add: mkAccount_def)
  have ce: "closingEntry (calculateYearEndClosing entriesY accountsYnoRE openingB
                (str ''2025-04-01'') (str ''2026-03-31'')) = None"
    using t2 n by blast
  from np after cf ce show ?thesis by blast
qed

lemma carryForward_ids:
  "map ob_accountId (carryForwardBalances (calculateYearEndClosing es accounts obs fs fe)) =
     map acc_id (filter (\<lambda>a. isBalanceSheetAccount (acc_type a)
                   \<and> getOr0 (closedBalances es accounts obs fs fe) (acc_id a) \<noteq> 0) accounts)"
  by (simp add: carryForwardBalances_eq comp_def)

lemma filter_absent_key:
  "y \<notin> f ` set xs \<Longrightarrow> filter (\<lambda>k. k = y) (map f (filter P xs)) = []"
  by (induction xs) auto

lemma count_in_distinct_map:
  "distinct (map f xs) \<Longrightarrow> a \<in> set xs \<Longrightarrow> P a \<Longrightarrow>
   length (filter (\<lambda>k. k = f a) (map f (filter P xs))) = 1"
proof (induction xs)
  case Nil
  then show ?case by simp
next
  case (Cons x xs)
  show ?case
  proof (cases "x = a")
    case True
    with Cons.prems have "f a \<notin> f ` set xs" by simp
    then have "filter (\<lambda>k. k = f a) (map f (filter P xs)) = []"
      by (rule filter_absent_key)
    with True Cons.prems show ?thesis by simp
  next
    case False
    with Cons.prems have "a \<in> set xs" "f x \<noteq> f a" "distinct (map f xs)" by auto
    with Cons.IH Cons.prems(3) show ?thesis by simp
  qed
qed

text \<open>
  C6 (amended). calculateYearEndClosing returns closingBalances and
  carryForwardBalances that carry the same signed ending balance, account by account:
  no sign is flipped for liability and equity accounts inside the function. Both lists
  contain, in the order of the chart, one record for each asset, liability or equity
  account of the chart whose ending balance is not zero, and nothing else; with
  distinct account ids each such account has exactly one carry-forward record, and no
  revenue or expense account has one.
\<close>

theorem year_end_carry_forward:
  "let r = calculateYearEndClosing es accounts obs fs fe;
       ending = getOr0 (closedBalances es accounts obs fs fe);
       kept = filter (\<lambda>a. isBalanceSheetAccount (acc_type a) \<and> ending (acc_id a) \<noteq> 0) accounts
   in carryForwardBalances r =
        map (\<lambda>a. \<lparr> ob_accountId = acc_id a, ob_amount = ending (acc_id a) \<rparr>) kept
    \<and> closingBalances r =
        map (\<lambda>a. \<lparr> cb_accountId = acc_id a, cb_accountName = acc_name a,
                    cb_accountType = acc_type a, cb_balance = ending (acc_id a) \<rparr>) kept
    \<and> map cbView (closingBalances r) = map obView (carryForwardBalances r)
    \<and> (distinct (map acc_id accounts) \<longrightarrow>
         (\<forall>a \<in> set accounts.
            (isBalanceSheetAccount (acc_type a) \<and> ending (acc_id a) \<noteq> 0 \<longrightarrow>
               length (filter (\<lambda>b. ob_accountId b = acc_id a) (carryForwardBalances r)) = 1)
          \<and> (acc_type a = Revenue \<or> acc_type a = Expense \<longrightarrow>
               acc_id a \<notin> set (map ob_accountId (carryForwardBalances r)))))"
proof -
  let ?r = "calculateYearEndClosing es accounts obs fs fe"
  let ?ending = "getOr0 (closedBalances es accounts obs fs fe)"
  let ?P = "\<lambda>a. isBalanceSheetAccount (acc_type a) \<and> ?ending (acc_id a) \<noteq> 0"
  have same: "map cbView (closingBalances ?r) = map obView (carryForwardBalances ?r)"
    by (simp add: closingBalances_eq carryForwardBalances_eq cbView_def obView_def comp_def)
  have one: "length (filter (\<lambda>b. ob_accountId b = acc_id a) (carryForwardBalances ?r)) = 1"
    if d: "distinct (map acc_id accounts)" and a: "a \<in> set accounts" and p: "?P a" for a
  proof -
    have "length (filter (\<lambda>b. ob_accountId b = acc_id a) (carryForwardBalances ?r)) =
          length (filter (\<lambda>k. k = acc_id a) (map ob_accountId (carryForwardBalances ?r)))"
      by (simp add: filter_map comp_def)
    also have "\<dots> = 1"
      unfolding carryForward_ids using d a p by (rule count_in_distinct_map)
    finally show ?thesis .
  qed
  have none: "acc_id a \<notin> set (map ob_accountId (carryForwardBalances ?r))"
    if d: "distinct (map acc_id accounts)" and a: "a \<in> set accounts"
       and t: "acc_type a = Revenue \<or> acc_type a = Expense" for a
  proof
    assume "acc_id a \<in> set (map ob_accountId (carryForwardBalances ?r))"
    then obtain a' where a': "a' \<in> set accounts" "isBalanceSheetAccount (acc_type a')"
        "acc_id a' = acc_id a"
      unfolding carryForward_ids by auto
    with d a have "a' = a" by (meson distinct_map inj_onD)
    with a' t show False by (auto simp: isBalanceSheetAccount_def)
  qed
  show ?thesis
    unfolding Let_def
  proof (intro conjI impI ballI)
    show "carryForwardBalances ?r =
        map (\<lambda>a. \<lparr> ob_accountId = acc_id a, ob_amount = ?ending (acc_id a) \<rparr>) (filter ?P accounts)"
      by (rule carryForwardBalances_eq)
    show "closingBalances ?r =
        map (\<lambda>a. \<lparr> cb_accountId = acc_id a, cb_accountName = acc_name a,
                    cb_accountType = acc_type a, cb_balance = ?ending (acc_id a) \<rparr>)
          (filter ?P accounts)"
      by (rule closingBalances_eq)
    show "map cbView (closingBalances ?r) = map obView (carryForwardBalances ?r)"
      by (rule same)
  qed (use one none in blast)+
qed

text \<open>
  The closing of the sale and the expense: both lists hold Cash 1300, Capital -500 and
  retained earnings -800; the revenue and expense accounts are absent.
\<close>

theorem year_end_carry_forward_witness:
  "map obView (carryForwardBalances (calculateYearEndClosing entriesY accountsY openingB
                (str ''2025-04-01'') (str ''2026-03-31''))) =
       [(str ''cash'', 1300), (str ''capital'', - 500), (str ''re'', - 800)]
   \<and> map cbView (closingBalances (calculateYearEndClosing entriesY accountsY openingB
                (str ''2025-04-01'') (str ''2026-03-31''))) =
       [(str ''cash'', 1300), (str ''capital'', - 500), (str ''re'', - 800)]
   \<and> str ''sales'' \<notin> set (map ob_accountId (carryForwardBalances
         (calculateYearEndClosing entriesY accountsY openingB
                (str ''2025-04-01'') (str ''2026-03-31''))))"
proof -
  have cf: "map obView (carryForwardBalances (calculateYearEndClosing entriesY accountsY openingB
                (str ''2025-04-01'') (str ''2026-03-31''))) =
       [(str ''cash'', 1300), (str ''capital'', - 500), (str ''re'', - 800)]"
    by (simp add: yec_eval entriesY_def accountsY_def openingB_def)
  have d: "distinct (map acc_id accountsY)"
    by (simp add: accountsY_def mkAccount_def)
  have s: "mkAccount ''sales'' ''401'' (str ''Sales'') Revenue \<in> set accountsY"
    by (simp add: accountsY_def)
  note t = year_end_carry_forward [of entriesY accountsY openingB "str ''2025-04-01''"
              "str ''2026-03-31''", unfolded Let_def]
  from t have "map cbView (closingBalances (calculateYearEndClosing entriesY accountsY openingB
                (str ''2025-04-01'') (str ''2026-03-31''))) =
       map obView (carryForwardBalances (calculateYearEndClosing entriesY accountsY openingB
                (str ''2025-04-01'') (str ''2026-03-31'')))"
    by blast
  moreover from t d
  have "\<forall>a \<in> set accountsY. acc_type a = Revenue \<or> acc_type a = Expense \<longrightarrow>
          acc_id a \<notin> set (map ob_accountId (carryForwardBalances
            (calculateYearEndClosing entriesY accountsY openingB
                (str ''2025-04-01'') (str ''2026-03-31''))))"
    by blast
  from bspec [OF this s]
  have "str ''sales'' \<notin> set (map ob_accountId (carryForwardBalances
         (calculateYearEndClosing entriesY accountsY openingB
                (str ''2025-04-01'') (str ''2026-03-31''))))"
    by (simp add: mkAccount_def)
  ultimately show ?thesis using cf by simp
qed

text \<open>
  C6 as stated fails: Capital, a credit-normal account with an opening balance of
  -500, is reported in closingBalances as -500, the same number that is carried
  forward, where the display-adjusted balance would be 500.
\<close>

theorem year_end_carry_forward_counterexample:
  "map cbView (closingBalances (calculateYearEndClosing [] accountsY openingB
                (str ''2025-04-01'') (str ''2026-03-31''))) =
       [(str ''cash'', 500), (str ''capital'', - 500)]
   \<and> map obView (carryForwardBalances (calculateYearEndClosing [] accountsY openingB
                (str ''2025-04-01'') (str ''2026-03-31''))) =
       [(str ''cash'', 500), (str ''capital'', - 500)]
   \<and> displayBalance Equity (- 500) = 500"
  by (simp add: yec_eval accountsY_def openingB_def displayBalance_def)

text \<open>
  The sign of a posting to a credit-normal account: a credit of 100 to a loan that
  has no opening balance is carried forward as +100, the debit side of the
  OpeningBalance convention.
\<close>

lemma carry_forward_posting_sign:
  "map obView (carryForwardBalances (calculateYearEndClosing entriesLoan accountsLoan []
                (str ''2025-04-01'') (str ''2026-03-31''))) =
     [(str ''cash'', 100), (str ''loan'', 100)]"
  by (simp add: yec_eval entriesLoan_def accountsLoan_def)

section \<open>Theorems: cash flow statement\<close>

text \<open>
  C2. For every entry list, account list and opening-balance set, the statement
  returned by calculateCashFlow has totalCashFlow = endingCash - beginningCash =
  operating subtotal + investing subtotal + financing subtotal; the operating subtotal
  is the residual totalCashFlow - investing subtotal - financing subtotal; and the
  operating lines it reports (net profit, depreciation, the receivable, inventory,
  payable and other-current-asset changes, and the other-current-liability change
  that absorbs the gap) sum to the operating subtotal.
\<close>

theorem cash_flow_reconciles:
  "totalCashFlow (calculateCashFlow es accounts obs) =
     endingCash (calculateCashFlow es accounts obs) - beginningCash (calculateCashFlow es accounts obs)
   \<and> totalCashFlow (calculateCashFlow es accounts obs) =
       op_subtotal (operating (calculateCashFlow es accounts obs))
       + inv_subtotal (investing (calculateCashFlow es accounts obs))
       + fin_subtotal (financing (calculateCashFlow es accounts obs))
   \<and> op_subtotal (operating (calculateCashFlow es accounts obs)) =
       totalCashFlow (calculateCashFlow es accounts obs)
       - inv_subtotal (investing (calculateCashFlow es accounts obs))
       - fin_subtotal (financing (calculateCashFlow es accounts obs))
   \<and> operatingLines (operating (calculateCashFlow es accounts obs)) =
       op_subtotal (operating (calculateCashFlow es accounts obs))"
  by (simp add: calculateCashFlow_def Let_def operatingLines_def)


text \<open>The definitions a concrete cash flow statement unfolds.\<close>

lemmas cf_eval = calculateCashFlow_def cashFlowStep_def postBalances_def setOpening_def
  changeStep_def noChanges_def getAccountType_def getAccountName_def getOr0_def
  isCashAccount_def isReceivable_def isInventory_def isPayable_def isFixedAsset_def
  fixedAssetNames_def isBorrowing_def isDepreciation_def isCapital_def
  isOtherCurrentAsset_def isOtherCurrentLiability_def Let_def mkEntry_def mkAccount_def
  name_Cash_def

text \<open>
  Scenario E: with entries on cash, revenue and expense accounts only, the operating
  subtotal is the net profit of 800, investing and financing are 0, and the total
  cash flow is 800.
\<close>

theorem cash_flow_reconciles_witness:
  "op_netProfit (operating (calculateCashFlow entriesE accountsE [])) = 800
   \<and> inv_subtotal (investing (calculateCashFlow entriesE accountsE [])) = 0
   \<and> fin_subtotal (financing (calculateCashFlow entriesE accountsE [])) = 0
   \<and> op_subtotal (operating (calculateCashFlow entriesE accountsE [])) = 800
   \<and> totalCashFlow (calculateCashFlow entriesE accountsE []) = 800
   \<and> operatingLines (operating (calculateCashFlow entriesE accountsE [])) = 800"
proof -
  have v: "op_netProfit (operating (calculateCashFlow entriesE accountsE [])) = 800
   \<and> inv_subtotal (investing (calculateCashFlow entriesE accountsE [])) = 0
   \<and> fin_subtotal (financing (calculateCashFlow entriesE accountsE [])) = 0
   \<and> endingCash (calculateCashFlow entriesE accountsE []) = 800
   \<and> beginningCash (calculateCashFlow entriesE accountsE []) = 0"
    by (simp add: cf_eval entriesE_def accountsE_def)
  from cash_flow_reconciles [of entriesE accountsE "[]"] v
  show ?thesis by simp
qed

section \<open>Theorems: financial indicators\<close>

lemma fold_indicatorStep_revenue:
  "fst (snd (fold (indicatorStep accounts) es (m, rv, c, x))) = rv + creditedRevenue accounts es"
  by (induction es arbitrary: m rv c x)
     (simp_all add: indicatorStep_def Let_def creditedRevenue_def)

lemma fi_revenue_eq:
  "fi_revenue (calculateFinancialIndicators es accounts obs) = creditedRevenue accounts es"
proof -
  obtain m rv c x where f: "fold (indicatorStep accounts) es (setOpening obs, 0, 0, 0) = (m, rv, c, x)"
    by (metis prod_cases4)
  from fold_indicatorStep_revenue [of accounts es "setOpening obs" 0 0 0] f
  show ?thesis by (simp add: calculateFinancialIndicators_def Let_def)
qed

lemma creditedRevenue_nonneg:
  "\<forall>e \<in> set es. amount e > 0 \<Longrightarrow> 0 \<le> creditedRevenue accounts es"
  by (induction es) (simp_all add: creditedRevenue_def)

lemma indicators_guards:
  "grossProfitMargin (calculateFinancialIndicators es accounts obs) =
     percentOf (fi_grossProfit (calculateFinancialIndicators es accounts obs))
               (fi_revenue (calculateFinancialIndicators es accounts obs))"
  "operatingProfitMargin (calculateFinancialIndicators es accounts obs) =
     percentOf (fi_operatingProfit (calculateFinancialIndicators es accounts obs))
               (fi_revenue (calculateFinancialIndicators es accounts obs))"
  "netProfitMargin (calculateFinancialIndicators es accounts obs) =
     percentOf (fi_netProfit (calculateFinancialIndicators es accounts obs))
               (fi_revenue (calculateFinancialIndicators es accounts obs))"
  "currentRatio (calculateFinancialIndicators es accounts obs) =
     percentOf (fi_currentAssets (calculateFinancialIndicators es accounts obs))
               (fi_currentLiabilities (calculateFinancialIndicators es accounts obs))"
  "debtEquityRatio (calculateFinancialIndicators es accounts obs) =
     percentOf (fi_totalLiabilities (calculateFinancialIndicators es accounts obs))
               (fi_equity (calculateFinancialIndicators es accounts obs))"
  "receivablesTurnover (calculateFinancialIndicators es accounts obs) =
     ratioOf (fi_revenue (calculateFinancialIndicators es accounts obs))
             (fi_receivables (calculateFinancialIndicators es accounts obs))"
  by (simp_all add: calculateFinancialIndicators_def Let_def split: prod.splits)

text \<open>
  C9 (amended). calculateFinancialIndicators returns the three profit margins as
  (profit / revenue) * 100, and null when revenue is not positive; revenue is the sum
  of the amounts credited to revenue accounts, so with positive entry amounts the
  margins are null exactly when revenue is 0. The current ratio is null exactly when
  currentLiabilities is not positive, the debt-equity ratio exactly when equity is not
  positive, and the receivables turnover exactly when receivables is not positive; in
  every other case the indicator is the double computed from the totals.
\<close>

theorem financial_indicator_guards:
  "let r = calculateFinancialIndicators es accounts obs;
       pct = (\<lambda>n d. jsMul (jsDiv (of_int n) (of_int d)) 100)
   in grossProfitMargin r =
        (if fi_revenue r > 0 then Some (pct (fi_grossProfit r) (fi_revenue r)) else None)
    \<and> operatingProfitMargin r =
        (if fi_revenue r > 0 then Some (pct (fi_operatingProfit r) (fi_revenue r)) else None)
    \<and> netProfitMargin r =
        (if fi_revenue r > 0 then Some (pct (fi_netProfit r) (fi_revenue r)) else None)
    \<and> currentRatio r =
        (if fi_currentLiabilities r > 0
         then Some (pct (fi_currentAssets r) (fi_currentLiabilities r)) else None)
    \<and> debtEquityRatio r =
        (if fi_equity r > 0 then Some (pct (fi_totalLiabilities r) (fi_equity r)) else None)
    \<and> receivablesTurnover r =
        (if fi_receivables r > 0
         then Some (jsDiv (of_int (fi_revenue r)) (of_int (fi_receivables r))) else None)
    \<and> fi_revenue r =
        (\<Sum>e\<leftarrow>es. if getAccountType accounts (creditAccountId e) = Some Revenue
                 then amount e else 0)
    \<and> ((\<forall>e \<in> set es. amount e > 0) \<longrightarrow>
         0 \<le> fi_revenue r
         \<and> (grossProfitMargin r = None \<longleftrightarrow> fi_revenue r = 0)
         \<and> (operatingProfitMargin r = None \<longleftrightarrow> fi_revenue r = 0)
         \<and> (netProfitMargin r = None \<longleftrightarrow> fi_revenue r = 0))"
proof -
  let ?r = "calculateFinancialIndicators es accounts obs"
  have rev: "fi_revenue ?r =
        (\<Sum>e\<leftarrow>es. if getAccountType accounts (creditAccountId e) = Some Revenue
                 then amount e else 0)"
    by (simp add: fi_revenue_eq creditedRevenue_def)
  have pos: "0 \<le> fi_revenue ?r
         \<and> (grossProfitMargin ?r = None \<longleftrightarrow> fi_revenue ?r = 0)
         \<and> (operatingProfitMargin ?r = None \<longleftrightarrow> fi_revenue ?r = 0)
         \<and> (netProfitMargin ?r = None \<longleftrightarrow> fi_revenue ?r = 0)"
    if "\<forall>e \<in> set es. amount e > 0"
  proof -
    have "0 \<le> fi_revenue ?r"
      using creditedRevenue_nonneg [OF that] by (simp add: fi_revenue_eq)
    then show ?thesis
      by (auto simp: indicators_guards percentOf_def)
  qed
  show ?thesis
    unfolding Let_def
  proof (intro conjI impI)
    assume a: "\<forall>e \<in> set es. amount e > 0"
    from pos [OF a] show "0 \<le> fi_revenue ?r"
      and "grossProfitMargin ?r = None \<longleftrightarrow> fi_revenue ?r = 0"
      and "operatingProfitMargin ?r = None \<longleftrightarrow> fi_revenue ?r = 0"
      and "netProfitMargin ?r = None \<longleftrightarrow> fi_revenue ?r = 0"
      by blast+
  qed (simp_all add: indicators_guards percentOf_def ratioOf_def fi_revenue_eq creditedRevenue_def)
qed

text \<open>The definitions a concrete set of indicators unfolds.\<close>

lemmas fi_eval = calculateFinancialIndicators_def indicatorStep_def postBalances_def
  setOpening_def sheetStep_def noSheetTotals_def getAccountType_def getAccountName_def
  getOr0_def isCostOfSales_def isCurrentAsset_def isCurrentLiability_def isReceivable_def
  percentOf_def ratioOf_def Let_def mkEntry_def mkAccount_def name_Cash_def name_Capital_def

text \<open>
  Sales of 3000 on credit and purchases of 900: the gross margin is 70, the current
  ratio 775 and the receivables turnover 1.
\<close>

theorem financial_indicator_guards_witness:
  "fi_revenue (calculateFinancialIndicators entriesI accountsI openingI) = 3000
   \<and> grossProfitMargin (calculateFinancialIndicators entriesI accountsI openingI) = Some 70
   \<and> currentRatio (calculateFinancialIndicators entriesI accountsI openingI) = Some 775
   \<and> receivablesTurnover (calculateFinancialIndicators entriesI accountsI openingI) = Some 1
   \<and> grossProfitMargin (calculateFinancialIndicators [] accountsI openingI) = None"
proof -
  have v: "fi_revenue (calculateFinancialIndicators entriesI accountsI openingI) = 3000
     \<and> fi_grossProfit (calculateFinancialIndicators entriesI accountsI openingI) = 2100
     \<and> fi_currentAssets (calculateFinancialIndicators entriesI accountsI openingI) = 3100
     \<and> fi_currentLiabilities (calculateFinancialIndicators entriesI accountsI openingI) = 400
     \<and> fi_receivables (calculateFinancialIndicators entriesI accountsI openingI) = 3000"
    by (simp add: fi_eval entriesI_def accountsI_def openingI_def)
  have q: "jsMul (jsDiv 2100 3000) 100 = 70" "jsMul (jsDiv 3100 400) 100 = 775"
          "jsDiv 3000 3000 = 1"
    by code_simp+
  have p: "\<forall>e \<in> set []. amount (e :: JournalEntry) > 0" by simp
  note t = financial_indicator_guards [of entriesI accountsI openingI, unfolded Let_def]
  note t0 = financial_indicator_guards [of "[]" accountsI openingI, unfolded Let_def]
  have z: "fi_revenue (calculateFinancialIndicators [] accountsI openingI) = 0"
    using t0 by simp
  have n: "grossProfitMargin (calculateFinancialIndicators [] accountsI openingI) = None"
    using t0 p z by blast
  from t v q n show ?thesis by simp
qed

text \<open>
  C9 as stated fails: receivables of -500 (a customer paid in advance) and current
  liabilities of -100 (a payable with a debit balance) are not 0, and both the
  receivables turnover and the current ratio are null.
\<close>

theorem financial_indicator_guards_counterexample:
  "fi_receivables (calculateFinancialIndicators entriesPrepaid accountsI openingPrepaid) = - 500
   \<and> receivablesTurnover (calculateFinancialIndicators entriesPrepaid accountsI openingPrepaid)
       = None
   \<and> fi_currentLiabilities (calculateFinancialIndicators entriesPrepaid accountsI openingPrepaid)
       = - 100
   \<and> currentRatio (calculateFinancialIndicators entriesPrepaid accountsI openingPrepaid) = None"
  by (simp add: fi_eval entriesPrepaid_def accountsI_def openingPrepaid_def)

section \<open>Theorems: consumption tax\<close>

text \<open>
  What holds for every integer amount: rate 0 is the identity, the tax-included total
  is the amount and its tax the amount minus the base, the tax-excluded base is the
  amount and its total the amount plus the tax.
\<close>

lemma calculateTax_shape:
  "calculateTax amt Rate0 m =
     \<lparr> baseAmount = amt, taxAmount = 0, tc_totalAmount = amt, taxRate = Rate0 \<rparr>"
  "tc_totalAmount (calculateTax amt r Included) = amt"
  "taxAmount (calculateTax amt r Included) = amt - baseAmount (calculateTax amt r Included)"
  "baseAmount (calculateTax amt r Excluded) = amt"
  "tc_totalAmount (calculateTax amt r Excluded) = amt + taxAmount (calculateTax amt r Excluded)"
  by (simp_all add: calculateTax_def Let_def)

text \<open>
  C3. The claim gives the tax-included base as floor(amount / (1 + rate/100)). At
  amount 110 and rate 10 that is 100. The code divides in double arithmetic:
  1 + 10/100 is the double just above 1.1, 110 divided by it rounds to the double
  just below 100, and Math.floor returns 99, with a tax of 11. The same happens at
  rate 8, where 135 gives a base of 124 instead of 125.
\<close>

theorem calculateTax_included_110:
  "calculateTax 110 Rate10 Included =
     \<lparr> baseAmount = 99, taxAmount = 11, tc_totalAmount = 110, taxRate = Rate10 \<rparr>
   \<and> exactBase 110 Rate10 = 100
   \<and> baseAmount (calculateTax 135 Rate8 Included) = 124
   \<and> exactBase 135 Rate8 = 125"
  by code_simp

text \<open>
  The tax-excluded direction at the matching input: 100 at rate 10 gives a tax of 10 and
  a total of 110, which the tax-included direction does not take back to 100.
\<close>

lemma calculateTax_excluded_100:
  "calculateTax 100 Rate10 Excluded =
     \<lparr> baseAmount = 100, taxAmount = 10, tc_totalAmount = 110, taxRate = Rate10 \<rparr>
   \<and> exactTax 100 Rate10 = 10"
  by code_simp


end
